theory Spec2Isabelle
  imports Main "HOL-Library.Word" "HOL-Library.Sublist"
begin

section \<open>Kubernetes objects read and written by service.go\<close>

text \<open>
  The Go string types \<open>corev1.Protocol\<close>, \<open>corev1.ServiceType\<close>,
  \<open>corev1.ServiceAffinity\<close> and \<open>corev1.ServiceExternalTrafficPolicyType\<close> are strings;
  the zero value is the empty string.
\<close>

type_synonym Protocol = string
type_synonym ServiceType = string
type_synonym ServiceAffinity = string
type_synonym ServiceExternalTrafficPolicyType = string

definition ProtocolTCP :: Protocol where
  "ProtocolTCP = ''TCP''"

definition ServiceTypeClusterIP :: ServiceType where
  "ServiceTypeClusterIP = ''ClusterIP''"

definition ServiceTypeLoadBalancer :: ServiceType where
  "ServiceTypeLoadBalancer = ''LoadBalancer''"

definition ServiceAffinityNone :: ServiceAffinity where
  "ServiceAffinityNone = ''None''"

definition ServiceExternalTrafficPolicyTypeLocal :: ServiceExternalTrafficPolicyType where
  "ServiceExternalTrafficPolicyTypeLocal = ''Local''"

text \<open>\<open>intstr.IntOrString\<close>: the zero value of \<open>Type\<close> is \<open>intstr.Int\<close>.\<close>

datatype intstr_Type = intstr_Int | intstr_String

record IntOrString =
  Type_ios :: intstr_Type
  IntVal :: "32 word"
  StrVal :: string

record ServicePort =
  Name_port :: string
  Protocol :: Protocol
  Port :: "32 word"
  TargetPort :: IntOrString
  NodePort :: "32 word"

text \<open>
  \<open>metav1.ObjectMeta\<close>, with the fields the file reads or writes and one field that
  only the store assigns. A nil Go map is the empty map.
\<close>

record ObjectMeta =
  Namespace :: string
  Name :: string
  Labels :: "string \<rightharpoonup> string"
  Annotations :: "string \<rightharpoonup> string"
  ResourceVersion :: string

record ServiceSpec =
  Ports :: "ServicePort list"
  Selector :: "string \<rightharpoonup> string"
  ClusterIP :: string
  Type :: ServiceType
  SessionAffinity :: ServiceAffinity
  ExternalTrafficPolicy :: ServiceExternalTrafficPolicyType

text \<open>
  An API object is its metadata and its spec. Go promotes the fields of the embedded
  \<open>ObjectMeta\<close>, so \<open>svc.Namespace\<close> is \<open>Namespace (ObjectMeta svc)\<close>.
\<close>

record 'spec Object =
  ObjectMeta :: ObjectMeta
  Spec :: 'spec

type_synonym Service = "ServiceSpec Object"

text \<open>
  The parent, \<open>operatorv1alpha1.Contour\<close>. The file reads \<open>contour.Name\<close>,
  \<open>contour.Namespace\<close> and \<open>contour.Spec.Namespace.Name\<close>; whatever else the type
  declares is the extension part of the two records.
\<close>

record NamespaceSpec =
  Name_ns :: string

record 'n ContourSpec =
  Namespace_spec :: "'n NamespaceSpec_scheme"

type_synonym ('n, 'c) Contour = "('n, 'c) ContourSpec_scheme Object"

text \<open>\<open>types.NamespacedName\<close>: the namespace, then the name.\<close>

type_synonym NamespacedName = "string \<times> string"

record LabelSelector =
  MatchLabels :: "string \<rightharpoonup> string"

section \<open>Errors\<close>

text \<open>
  A Go \<open>error\<close> is either what the client returned (a status with a reason and a message)
  or the result of \<open>fmt.Errorf\<close> with the verb \<open>%w\<close>, which keeps the formatted message
  and the wrapped error. A nil error is \<open>None\<close>.
\<close>

datatype error = StatusError string string | WrapError string error

fun Error :: "error \<Rightarrow> string" where
  "Error (StatusError reason msg) = msg"
| "Error (WrapError msg err) = msg"

text \<open>\<open>errors.IsNotFound\<close> of apimachinery: the reason of the status is \<open>NotFound\<close>.\<close>

fun IsNotFound :: "error \<Rightarrow> bool" where
  "IsNotFound (StatusError reason msg) = (reason = ''NotFound'')"
| "IsNotFound (WrapError msg err) = IsNotFound err"

text \<open>\<open>fmt.Errorf("failed to <verb> service %s/%s: %w", ns, name, err)\<close>.\<close>

definition Errorf_service :: "string \<Rightarrow> string \<Rightarrow> string \<Rightarrow> error \<Rightarrow> error" where
  "Errorf_service verb ns name err =
     WrapError (''failed to '' @ verb @ '' service '' @ ns @ ''/'' @ name @ '': '' @ Error err) err"

text \<open>The chain that \<open>errors.Unwrap\<close> walks, the error itself first.\<close>

fun error_chain :: "error \<Rightarrow> error list" where
  "error_chain (StatusError reason msg) = [StatusError reason msg]"
| "error_chain (WrapError msg err) = WrapError msg err # error_chain err"

text \<open>
  An error \<open>e\<close> is the store's error \<open>cause\<close> wrapped with the operation and the
  namespace/name of the resource: \<open>cause\<close> is reached by unwrapping \<open>e\<close> at least once and
  the message of \<open>e\<close> starts with the operation and the resource.
\<close>

definition wraps_store_error :: "string \<Rightarrow> string \<Rightarrow> string \<Rightarrow> error \<Rightarrow> error \<Rightarrow> bool" where
  "wraps_store_error verb ns name cause e =
     (cause \<in> set (tl (error_chain e)) \<and>
      prefix (''failed to '' @ verb @ '' service '' @ ns @ ''/'' @ name @ '': '') (Error e))"

section \<open>Declarations of the package that live outside service.go\<close>

text \<open>
  The label keys \<open>operatorv1alpha1.OwningContourNameLabel\<close> and
  \<open>operatorv1alpha1.OwningContourNsLabel\<close>, the port numbers, the two pod selectors,
  \<open>ownerLabelsExist\<close> and the two change detectors of package \<open>equality\<close> are used by
  service.go and declared elsewhere. They are parameters of the model: every theorem
  below holds for each value of them.

  A change detector returns a pointer and a flag; service.go reads the pointer only
  when the flag is true, and the model takes the pointer to be non-nil then.
\<close>

record ('n, 'c) decls =
  OwningContourNameLabel :: string
  OwningContourNsLabel :: string
  xdsPort :: int
  httpPort :: int
  httpsPort :: int
  contourDeploymentPodSelector :: LabelSelector
  envoyDaemonSetPodSelector :: LabelSelector
  ownerLabelsExist :: "Service \<Rightarrow> ('n, 'c) Contour \<Rightarrow> bool"
  ClusterIPServiceChanged :: "Service \<Rightarrow> Service \<Rightarrow> Service \<times> bool"
  LoadBalancerServiceChanged :: "Service \<Rightarrow> Service \<Rightarrow> Service \<times> bool"

section \<open>Constants of service.go\<close>

definition contourSvcName :: string where
  "contourSvcName = ''contour''"

definition envoySvcName :: string where
  "envoySvcName = ''envoy''"

definition awsLbBackendProtoAnnotation :: string where
  "awsLbBackendProtoAnnotation = ''service.beta.kubernetes.io/aws-load-balancer-backend-protocol''"

section \<open>The desired services\<close>

text \<open>\<open>int32(p)\<close> of a Go integer.\<close>

definition int32 :: "int \<Rightarrow> 32 word" where
  "int32 p = word_of_int p"

definition DesiredContourService :: "('n, 'c) decls \<Rightarrow> ('n, 'c) Contour \<Rightarrow> Service" where
  "DesiredContourService d contour =
     \<lparr>ObjectMeta = \<lparr>
        Namespace = Name_ns (Namespace_spec (Spec contour)),
        Name = contourSvcName,
        Labels = [OwningContourNameLabel d \<mapsto> Name (ObjectMeta contour),
                  OwningContourNsLabel d \<mapsto> Namespace (ObjectMeta contour)],
        Annotations = Map.empty,
        ResourceVersion = []\<rparr>,
      Spec = \<lparr>
        Ports = [\<lparr>Name_port = ''xds'',
                  Protocol = ProtocolTCP,
                  Port = int32 (xdsPort d),
                  TargetPort = \<lparr>Type_ios = intstr_Int, IntVal = int32 (xdsPort d), StrVal = []\<rparr>,
                  NodePort = 0\<rparr>],
        Selector = MatchLabels (contourDeploymentPodSelector d),
        ClusterIP = [],
        Type = ServiceTypeClusterIP,
        SessionAffinity = ServiceAffinityNone,
        ExternalTrafficPolicy = []\<rparr>\<rparr>"

definition DesiredEnvoyService :: "('n, 'c) decls \<Rightarrow> ('n, 'c) Contour \<Rightarrow> Service" where
  "DesiredEnvoyService d contour =
     \<lparr>ObjectMeta = \<lparr>
        Namespace = Name_ns (Namespace_spec (Spec contour)),
        Name = envoySvcName,
        Labels = [OwningContourNameLabel d \<mapsto> Name (ObjectMeta contour),
                  OwningContourNsLabel d \<mapsto> Namespace (ObjectMeta contour)],
        Annotations = [awsLbBackendProtoAnnotation \<mapsto> ''tcp''],
        ResourceVersion = []\<rparr>,
      Spec = \<lparr>
        Ports = [\<lparr>Name_port = ''http'',
                  Protocol = ProtocolTCP,
                  Port = int32 (httpPort d),
                  TargetPort = \<lparr>Type_ios = intstr_Int, IntVal = int32 (httpPort d), StrVal = []\<rparr>,
                  NodePort = 0\<rparr>,
                 \<lparr>Name_port = ''https'',
                  Protocol = ProtocolTCP,
                  Port = int32 (httpsPort d),
                  TargetPort = \<lparr>Type_ios = intstr_Int, IntVal = int32 (httpsPort d), StrVal = []\<rparr>,
                  NodePort = 0\<rparr>],
        Selector = MatchLabels (envoyDaemonSetPodSelector d),
        ClusterIP = [],
        Type = ServiceTypeLoadBalancer,
        SessionAffinity = ServiceAffinityNone,
        ExternalTrafficPolicy = ServiceExternalTrafficPolicyTypeLocal\<rparr>\<rparr>"

section \<open>The client and the state of one reconciler\<close>

text \<open>
  \<open>r.client\<close> is an interface to a remote store. Each of its four operations reads and
  changes a world \<open>'w\<close> that the model does not look into; a nil error is \<open>None\<close>.
  \<open>Get\<close> fills the object it is given when it succeeds. \<open>Create\<close>, \<open>Update\<close>
  and \<open>Delete\<close> leave the namespace and the name of the object they are given as they
  are, which is all that service.go reads of it afterwards, for the log.
\<close>

record 'w Client =
  Get :: "'w \<Rightarrow> NamespacedName \<Rightarrow> (error + Service) \<times> 'w"
  Create :: "'w \<Rightarrow> Service \<Rightarrow> error option \<times> 'w"
  Update :: "'w \<Rightarrow> Service \<Rightarrow> error option \<times> 'w"
  Delete :: "'w \<Rightarrow> Service \<Rightarrow> error option \<times> 'w"

datatype call =
  GetCall NamespacedName
| CreateCall Service
| UpdateCall Service
| DeleteCall Service

text \<open>
  The state threaded through a reconciler method: the world behind the client, the
  calls made on the client so far, each with the error it returned, and the lines
  written to \<open>r.log\<close> (the message, then the namespace and the name logged with it).
\<close>

record 'w rstate =
  world :: 'w
  calls :: "(call \<times> error option) list"
  logs :: "(string \<times> string \<times> string) list"

definition client_Get :: "'w Client \<Rightarrow> NamespacedName \<Rightarrow> 'w rstate \<Rightarrow> (error + Service) \<times> 'w rstate" where
  "client_Get cl key s =
     (case Get cl (world s) key of
        (Inl err, w) \<Rightarrow> (Inl err, s\<lparr>world := w, calls := calls s @ [(GetCall key, Some err)]\<rparr>)
      | (Inr obj, w) \<Rightarrow> (Inr obj, s\<lparr>world := w, calls := calls s @ [(GetCall key, None)]\<rparr>))"

definition client_Create :: "'w Client \<Rightarrow> Service \<Rightarrow> 'w rstate \<Rightarrow> error option \<times> 'w rstate" where
  "client_Create cl svc s =
     (case Create cl (world s) svc of
        (err, w) \<Rightarrow> (err, s\<lparr>world := w, calls := calls s @ [(CreateCall svc, err)]\<rparr>))"

definition client_Update :: "'w Client \<Rightarrow> Service \<Rightarrow> 'w rstate \<Rightarrow> error option \<times> 'w rstate" where
  "client_Update cl svc s =
     (case Update cl (world s) svc of
        (err, w) \<Rightarrow> (err, s\<lparr>world := w, calls := calls s @ [(UpdateCall svc, err)]\<rparr>))"

definition client_Delete :: "'w Client \<Rightarrow> Service \<Rightarrow> 'w rstate \<Rightarrow> error option \<times> 'w rstate" where
  "client_Delete cl svc s =
     (case Delete cl (world s) svc of
        (err, w) \<Rightarrow> (err, s\<lparr>world := w, calls := calls s @ [(DeleteCall svc, err)]\<rparr>))"

definition log_Info :: "string \<Rightarrow> Service \<Rightarrow> 'w rstate \<Rightarrow> 'w rstate" where
  "log_Info msg svc s =
     s\<lparr>logs := logs s @ [(msg, Namespace (ObjectMeta svc), Name (ObjectMeta svc))]\<rparr>"

section \<open>The reconciler methods of service.go\<close>

definition currentContourService ::
  "'w Client \<Rightarrow> ('n, 'c) Contour \<Rightarrow> 'w rstate \<Rightarrow> (error + Service) \<times> 'w rstate" where
  "currentContourService cl contour s =
     client_Get cl (Name_ns (Namespace_spec (Spec contour)), contourSvcName) s"

definition currentEnvoyService ::
  "'w Client \<Rightarrow> ('n, 'c) Contour \<Rightarrow> 'w rstate \<Rightarrow> (error + Service) \<times> 'w rstate" where
  "currentEnvoyService cl contour s =
     client_Get cl (Name_ns (Namespace_spec (Spec contour)), envoySvcName) s"

definition createService :: "'w Client \<Rightarrow> Service \<Rightarrow> 'w rstate \<Rightarrow> error option \<times> 'w rstate" where
  "createService cl svc s =
     (case client_Create cl svc s of
        (Some err, s1) \<Rightarrow>
          (Some (Errorf_service ''create'' (Namespace (ObjectMeta svc)) (Name (ObjectMeta svc)) err), s1)
      | (None, s1) \<Rightarrow> (None, log_Info ''created service'' svc s1))"

definition updateContourServiceIfNeeded ::
  "('n, 'c) decls \<Rightarrow> 'w Client \<Rightarrow> ('n, 'c) Contour \<Rightarrow> Service \<Rightarrow> Service \<Rightarrow> 'w rstate
     \<Rightarrow> error option \<times> 'w rstate" where
  "updateContourServiceIfNeeded d cl contour current desired s =
     (if \<not> ownerLabelsExist d current contour
      then (None, log_Info ''service missing owner labels; skipped updating'' current s)
      else
        (case ClusterIPServiceChanged d current desired of
           (svc, updated) \<Rightarrow>
             if updated then
               (case client_Update cl svc s of
                  (Some err, s1) \<Rightarrow>
                    (Some (Errorf_service ''update'' (Namespace (ObjectMeta svc)) (Name (ObjectMeta svc)) err), s1)
                | (None, s1) \<Rightarrow> (None, log_Info ''updated service'' svc s1))
             else (None, log_Info ''service unchanged; skipped updating'' current s)))"

definition updateEnvoyServiceIfNeeded ::
  "('n, 'c) decls \<Rightarrow> 'w Client \<Rightarrow> ('n, 'c) Contour \<Rightarrow> Service \<Rightarrow> Service \<Rightarrow> 'w rstate
     \<Rightarrow> error option \<times> 'w rstate" where
  "updateEnvoyServiceIfNeeded d cl contour current desired s =
     (if \<not> ownerLabelsExist d current contour
      then (None, log_Info ''service missing owner labels; skipped updating'' current s)
      else
        (case LoadBalancerServiceChanged d current desired of
           (svc, updated) \<Rightarrow>
             if updated then
               (case client_Update cl svc s of
                  (Some err, s1) \<Rightarrow>
                    (Some (Errorf_service ''update'' (Namespace (ObjectMeta svc)) (Name (ObjectMeta svc)) err), s1)
                | (None, s1) \<Rightarrow> (None, log_Info ''updated service'' svc s1))
             else (None, log_Info ''service unchanged; skipped updating'' current s)))"

definition ensureContourService ::
  "('n, 'c) decls \<Rightarrow> 'w Client \<Rightarrow> ('n, 'c) Contour \<Rightarrow> 'w rstate \<Rightarrow> error option \<times> 'w rstate" where
  "ensureContourService d cl contour s =
     (let desired = DesiredContourService d contour in
      case currentContourService cl contour s of
        (Inl err, s1) \<Rightarrow>
          if IsNotFound err then createService cl desired s1
          else (Some (Errorf_service ''get'' (Namespace (ObjectMeta desired)) (Name (ObjectMeta desired)) err), s1)
      | (Inr current, s1) \<Rightarrow>
          (case updateContourServiceIfNeeded d cl contour current desired s1 of
             (Some err, s2) \<Rightarrow>
               (Some (Errorf_service ''update'' (Namespace (ObjectMeta desired)) (Name (ObjectMeta desired)) err), s2)
           | (None, s2) \<Rightarrow> (None, s2)))"

definition ensureEnvoyService ::
  "('n, 'c) decls \<Rightarrow> 'w Client \<Rightarrow> ('n, 'c) Contour \<Rightarrow> 'w rstate \<Rightarrow> error option \<times> 'w rstate" where
  "ensureEnvoyService d cl contour s =
     (let desired = DesiredEnvoyService d contour in
      case currentEnvoyService cl contour s of
        (Inl err, s1) \<Rightarrow>
          if IsNotFound err then createService cl desired s1
          else (Some (Errorf_service ''get'' (Namespace (ObjectMeta desired)) (Name (ObjectMeta desired)) err), s1)
      | (Inr current, s1) \<Rightarrow>
          (case updateEnvoyServiceIfNeeded d cl contour current desired s1 of
             (Some err, s2) \<Rightarrow>
               (Some (Errorf_service ''update'' (Namespace (ObjectMeta desired)) (Name (ObjectMeta desired)) err), s2)
           | (None, s2) \<Rightarrow> (None, s2)))"

definition ensureContourServiceDeleted ::
  "('n, 'c) decls \<Rightarrow> 'w Client \<Rightarrow> ('n, 'c) Contour \<Rightarrow> 'w rstate \<Rightarrow> error option \<times> 'w rstate" where
  "ensureContourServiceDeleted d cl contour s =
     (case currentContourService cl contour s of
        (Inl err, s1) \<Rightarrow> if IsNotFound err then (None, s1) else (Some err, s1)
      | (Inr svc, s1) \<Rightarrow>
          if \<not> ownerLabelsExist d svc contour
          then (None, log_Info ''service not labeled; skipping deletion'' svc s1)
          else
            (case client_Delete cl svc s1 of
               (Some err, s2) \<Rightarrow> if IsNotFound err then (None, s2) else (Some err, s2)
             | (None, s2) \<Rightarrow> (None, log_Info ''deleted service'' svc s2)))"

definition ensureEnvoyServiceDeleted ::
  "('n, 'c) decls \<Rightarrow> 'w Client \<Rightarrow> ('n, 'c) Contour \<Rightarrow> 'w rstate \<Rightarrow> error option \<times> 'w rstate" where
  "ensureEnvoyServiceDeleted d cl contour s =
     (case currentEnvoyService cl contour s of
        (Inl err, s1) \<Rightarrow> if IsNotFound err then (None, s1) else (Some err, s1)
      | (Inr svc, s1) \<Rightarrow>
          if \<not> ownerLabelsExist d svc contour
          then (None, log_Info ''service not labeled; skipping deletion'' svc s1)
          else
            (case client_Delete cl svc s1 of
               (Some err, s2) \<Rightarrow> if IsNotFound err then (None, s2) else (Some err, s2)
             | (None, s2) \<Rightarrow> (None, log_Info ''deleted service'' svc s2)))"

section \<open>The two kinds of service and the two operations\<close>

text \<open>
  The specification calls the Contour service the internal kind and the Envoy service
  the external kind, and writes EnsureExists(parent, kind), EnsureDeleted(parent, kind)
  and desired(parent, kind) for the pairs of functions above.
\<close>

datatype kind = Internal | External

definition svcName :: "kind \<Rightarrow> string" where
  "svcName k = (case k of Internal \<Rightarrow> contourSvcName | External \<Rightarrow> envoySvcName)"

definition serviceKey :: "kind \<Rightarrow> ('n, 'c) Contour \<Rightarrow> NamespacedName" where
  "serviceKey k contour = (Name_ns (Namespace_spec (Spec contour)), svcName k)"

definition desired :: "('n, 'c) decls \<Rightarrow> kind \<Rightarrow> ('n, 'c) Contour \<Rightarrow> Service" where
  "desired d k contour =
     (case k of Internal \<Rightarrow> DesiredContourService d contour
              | External \<Rightarrow> DesiredEnvoyService d contour)"

definition serviceChanged :: "('n, 'c) decls \<Rightarrow> kind \<Rightarrow> Service \<Rightarrow> Service \<Rightarrow> Service \<times> bool" where
  "serviceChanged d k =
     (case k of Internal \<Rightarrow> ClusterIPServiceChanged d
              | External \<Rightarrow> LoadBalancerServiceChanged d)"

definition EnsureExists ::
  "('n, 'c) decls \<Rightarrow> 'w Client \<Rightarrow> kind \<Rightarrow> ('n, 'c) Contour \<Rightarrow> 'w rstate \<Rightarrow> error option \<times> 'w rstate" where
  "EnsureExists d cl k contour s =
     (case k of Internal \<Rightarrow> ensureContourService d cl contour s
              | External \<Rightarrow> ensureEnvoyService d cl contour s)"

definition EnsureDeleted ::
  "('n, 'c) decls \<Rightarrow> 'w Client \<Rightarrow> kind \<Rightarrow> ('n, 'c) Contour \<Rightarrow> 'w rstate \<Rightarrow> error option \<times> 'w rstate" where
  "EnsureDeleted d cl k contour s =
     (case k of Internal \<Rightarrow> ensureContourServiceDeleted d cl contour s
              | External \<Rightarrow> ensureEnvoyServiceDeleted d cl contour s)"

text \<open>The calls that one invocation, started in state \<open>s\<close>, added to the record.\<close>

definition calls_of :: "'w rstate \<Rightarrow> error option \<times> 'w rstate \<Rightarrow> (call \<times> error option) list" where
  "calls_of s res = drop (length (calls s)) (calls (snd res))"

fun is_get :: "call \<times> error option \<Rightarrow> bool" where
  "is_get (GetCall key, r) = True"
| "is_get (c, r) = False"

fun is_create :: "call \<times> error option \<Rightarrow> bool" where
  "is_create (CreateCall svc, r) = True"
| "is_create (c, r) = False"

fun is_update :: "call \<times> error option \<Rightarrow> bool" where
  "is_update (UpdateCall svc, r) = True"
| "is_update (c, r) = False"

fun is_delete :: "call \<times> error option \<Rightarrow> bool" where
  "is_delete (DeleteCall svc, r) = True"
| "is_delete (c, r) = False"

definition is_mutating :: "call \<times> error option \<Rightarrow> bool" where
  "is_mutating c = (is_create c \<or> is_update c \<or> is_delete c)"

text \<open>A call that returned an error other than NotFound.\<close>

fun failed_call :: "call \<times> error option \<Rightarrow> bool" where
  "failed_call (c, Some err) = (\<not> IsNotFound err)"
| "failed_call (c, None) = False"

section \<open>A store and sample declarations, to run the model\<close>

text \<open>
  Modelled from the spec: the resource store behind \<open>r.client\<close> is an external
  collaborator (section 4.2: get, create, update and delete, with NotFound as a
  distinguished condition). This is a store without faults, without defaulting and
  without another writer: a map from namespace/name to the service kept there.
\<close>

type_synonym store = "NamespacedName \<rightharpoonup> Service"

definition key_of :: "Service \<Rightarrow> NamespacedName" where
  "key_of svc = (Namespace (ObjectMeta svc), Name (ObjectMeta svc))"

definition memory_client :: "store Client" where
  "memory_client =
     \<lparr>Get = (\<lambda>w key. case w key of
               None \<Rightarrow> (Inl (StatusError ''NotFound'' ''not found''), w)
             | Some svc \<Rightarrow> (Inr svc, w)),
      Create = (\<lambda>w svc. case w (key_of svc) of
               None \<Rightarrow> (None, w(key_of svc \<mapsto> svc))
             | Some old \<Rightarrow> (Some (StatusError ''AlreadyExists'' ''already exists''), w)),
      Update = (\<lambda>w svc. case w (key_of svc) of
               None \<Rightarrow> (Some (StatusError ''NotFound'' ''not found''), w)
             | Some old \<Rightarrow> (None, w(key_of svc \<mapsto> svc))),
      Delete = (\<lambda>w svc. case w (key_of svc) of
               None \<Rightarrow> (Some (StatusError ''NotFound'' ''not found''), w)
             | Some old \<Rightarrow> (None, w(key_of svc := None)))\<rparr>"

text \<open>Every service kept in the store is kept under its own namespace/name.\<close>

definition store_keyed :: "store \<Rightarrow> NamespacedName \<Rightarrow> bool" where
  "store_keyed w key = (case w key of None \<Rightarrow> True | Some svc \<Rightarrow> key_of svc = key)"

text \<open>
  What repeated reconciliation needs of a change detector, for the desired service
  \<open>des\<close>: the merged service it returns keeps the namespace/name of the current one
  and is itself found unchanged, and the desired service is found unchanged.
\<close>

definition detector_settles :: "(Service \<Rightarrow> Service \<Rightarrow> Service \<times> bool) \<Rightarrow> Service \<Rightarrow> bool" where
  "detector_settles chg des =
     (\<not> snd (chg des des) \<and>
      (\<forall>cur. snd (chg cur des) \<longrightarrow>
         key_of (fst (chg cur des)) = key_of cur \<and> \<not> snd (chg (fst (chg cur des)) des)))"

text \<open>
  Modelled from the spec: \<open>ownerLabelsExist\<close> is declared outside service.go.
  Section 4.3: true iff both required ownership labels are present on the resource and
  their values exactly equal the parent's name and namespace respectively.
\<close>

definition spec_ownerLabelsExist ::
  "string \<Rightarrow> string \<Rightarrow> Service \<Rightarrow> ('n, 'c) Contour \<Rightarrow> bool" where
  "spec_ownerLabelsExist nameLabel nsLabel svc contour =
     (Labels (ObjectMeta svc) nameLabel = Some (Name (ObjectMeta contour)) \<and>
      Labels (ObjectMeta svc) nsLabel = Some (Namespace (ObjectMeta contour)))"

text \<open>
  Modelled from the spec: \<open>equality.ClusterIPServiceChanged\<close> and
  \<open>equality.LoadBalancerServiceChanged\<close> are declared outside service.go. Section 4.4:
  start from current; the internal kind compares ports, selector and session affinity,
  the external kind additionally the exposure type, the external-traffic policy and the
  cloud annotation; if any differ, each is overwritten with the desired value and
  changed is true; labels and annotations are merged by key, desired keys overwriting;
  when all managed fields match the object is returned unmodified with changed false.
\<close>

definition spec_merge_meta :: "ObjectMeta \<Rightarrow> ObjectMeta \<Rightarrow> ObjectMeta" where
  "spec_merge_meta cur des =
     cur\<lparr>Labels := Labels cur ++ Labels des, Annotations := Annotations cur ++ Annotations des\<rparr>"

definition spec_ClusterIPServiceChanged :: "Service \<Rightarrow> Service \<Rightarrow> Service \<times> bool" where
  "spec_ClusterIPServiceChanged current des =
     (if Ports (Spec current) = Ports (Spec des) \<and>
         SessionAffinity (Spec current) = SessionAffinity (Spec des) \<and>
         Selector (Spec current) = Selector (Spec des)
      then (current, False)
      else (\<lparr>ObjectMeta = spec_merge_meta (ObjectMeta current) (ObjectMeta des),
             Spec = (Spec current)\<lparr>Ports := Ports (Spec des),
                                    Selector := Selector (Spec des),
                                    SessionAffinity := SessionAffinity (Spec des)\<rparr>\<rparr>, True))"

definition spec_LoadBalancerServiceChanged :: "Service \<Rightarrow> Service \<Rightarrow> Service \<times> bool" where
  "spec_LoadBalancerServiceChanged current des =
     (if Ports (Spec current) = Ports (Spec des) \<and>
         SessionAffinity (Spec current) = SessionAffinity (Spec des) \<and>
         Type (Spec current) = Type (Spec des) \<and>
         ExternalTrafficPolicy (Spec current) = ExternalTrafficPolicy (Spec des) \<and>
         Annotations (ObjectMeta current) awsLbBackendProtoAnnotation =
           Annotations (ObjectMeta des) awsLbBackendProtoAnnotation \<and>
         Selector (Spec current) = Selector (Spec des)
      then (current, False)
      else (\<lparr>ObjectMeta = spec_merge_meta (ObjectMeta current) (ObjectMeta des),
             Spec = (Spec current)\<lparr>Ports := Ports (Spec des),
                                    Selector := Selector (Spec des),
                                    Type := Type (Spec des),
                                    SessionAffinity := SessionAffinity (Spec des),
                                    ExternalTrafficPolicy := ExternalTrafficPolicy (Spec des)\<rparr>\<rparr>, True))"

text \<open>
  Sample declarations: the spec-modelled ownership guard and change detectors, and
  sample values for the label keys, the ports and the pod selectors, whose values the
  specification leaves open.
\<close>

definition sample_decls :: "(unit, unit) decls" where
  "sample_decls =
     \<lparr>OwningContourNameLabel = ''owning-contour-name'',
      OwningContourNsLabel = ''owning-contour-namespace'',
      xdsPort = 8001,
      httpPort = 80,
      httpsPort = 443,
      contourDeploymentPodSelector = \<lparr>MatchLabels = [''app'' \<mapsto> ''contour'']\<rparr>,
      envoyDaemonSetPodSelector = \<lparr>MatchLabels = [''app'' \<mapsto> ''envoy'']\<rparr>,
      ownerLabelsExist = spec_ownerLabelsExist ''owning-contour-name'' ''owning-contour-namespace'',
      ClusterIPServiceChanged = spec_ClusterIPServiceChanged,
      LoadBalancerServiceChanged = spec_LoadBalancerServiceChanged\<rparr>"

text \<open>
  A sample parent: the object lives in namespace \<open>ops\<close> and selects namespace
  \<open>projectcontour\<close> for its services.
\<close>

definition sample_contour :: "(unit, unit) Contour" where
  "sample_contour =
     \<lparr>ObjectMeta = \<lparr>Namespace = ''ops'', Name = ''mesh'', Labels = Map.empty,
                    Annotations = Map.empty, ResourceVersion = ''7''\<rparr>,
      Spec = \<lparr>Namespace_spec = \<lparr>Name_ns = ''projectcontour''\<rparr>\<rparr>\<rparr>"

definition init_state :: "'w \<Rightarrow> 'w rstate" where
  "init_state w = \<lparr>world = w, calls = [], logs = []\<rparr>"

text \<open>A client whose every operation fails with the given error.\<close>

definition failing_client :: "error \<Rightarrow> unit Client" where
  "failing_client err =
     \<lparr>Get = (\<lambda>w key. (Inl err, w)),
      Create = (\<lambda>w svc. (Some err, w)),
      Update = (\<lambda>w svc. (Some err, w)),
      Delete = (\<lambda>w svc. (Some err, w))\<rparr>"

text \<open>
  A store in which another deleter wins the race: a service that \<open>Get\<close> still
  returns is gone by the time \<open>Delete\<close> arrives, and the store answers NotFound.
\<close>

definition racing_client :: "store Client" where
  "racing_client =
     memory_client\<lparr>Delete :=
       (\<lambda>w svc. (Some (StatusError ''NotFound'' ''not found''), w(key_of svc := None)))\<rparr>"

text \<open>
  Two services that the store may hold under the key of a kind: one that carries no
  labels at all, and one that carries the labels of the sample parent but has lost its
  ports and has a cluster address assigned by the store.
\<close>

definition unlabeled_service :: "kind \<Rightarrow> Service" where
  "unlabeled_service k =
     \<lparr>ObjectMeta = \<lparr>Namespace = ''projectcontour'', Name = svcName k, Labels = Map.empty,
                    Annotations = Map.empty, ResourceVersion = ''41''\<rparr>,
      Spec = \<lparr>Ports = [], Selector = Map.empty, ClusterIP = ''10.0.0.7'',
              Type = ServiceTypeClusterIP, SessionAffinity = ServiceAffinityNone,
              ExternalTrafficPolicy = []\<rparr>\<rparr>"

definition stale_service :: "kind \<Rightarrow> Service" where
  "stale_service k =
     (desired sample_decls k sample_contour)
       \<lparr>Spec := (Spec (desired sample_decls k sample_contour))\<lparr>Ports := [], ClusterIP := ''10.0.0.7''\<rparr>\<rparr>"

text \<open>Another parent in the same namespace, selecting the same namespace for its services.\<close>

definition other_contour :: "(unit, unit) Contour" where
  "other_contour =
     \<lparr>ObjectMeta = \<lparr>Namespace = ''ops'', Name = ''edge'', Labels = Map.empty,
                    Annotations = Map.empty, ResourceVersion = ''9''\<rparr>,
      Spec = \<lparr>Namespace_spec = \<lparr>Name_ns = ''projectcontour''\<rparr>\<rparr>\<rparr>"

text \<open>A store that serves reads and refuses every write with the given error.\<close>

definition readonly_client :: "error \<Rightarrow> store Client" where
  "readonly_client err =
     memory_client\<lparr>Create := (\<lambda>w svc. (Some err, w)),
                   Update := (\<lambda>w svc. (Some err, w)),
                   Delete := (\<lambda>w svc. (Some err, w))\<rparr>"

section \<open>Properties of one invocation\<close>

text \<open>
  One pass over the store: exactly one get, at most one mutating call, and a call that
  fails with an error other than NotFound is the last call and makes the invocation
  return an error.
\<close>

definition single_pass :: "(call \<times> error option) list \<Rightarrow> error option \<Rightarrow> bool" where
  "single_pass tr res =
     (length (filter is_get tr) = 1 \<and>
      length (filter is_mutating tr) \<le> 1 \<and>
      length tr \<le> 2 \<and>
      (\<forall>i < length tr. failed_call (tr ! i) \<longrightarrow> Suc i = length tr \<and> res \<noteq> None))"

section \<open>What each run of the two operations does\<close>

lemma DesiredContourService_meta:
  "Namespace (ObjectMeta (DesiredContourService d contour)) = Name_ns (Namespace_spec (Spec contour))"
  "Name (ObjectMeta (DesiredContourService d contour)) = contourSvcName"
  by (simp_all add: DesiredContourService_def)

lemma DesiredEnvoyService_meta:
  "Namespace (ObjectMeta (DesiredEnvoyService d contour)) = Name_ns (Namespace_spec (Spec contour))"
  "Name (ObjectMeta (DesiredEnvoyService d contour)) = envoySvcName"
  by (simp_all add: DesiredEnvoyService_def)

lemmas desired_meta = DesiredContourService_meta DesiredEnvoyService_meta

lemmas ensure_defs = EnsureExists_def EnsureDeleted_def ensureContourService_def ensureEnvoyService_def
  ensureContourServiceDeleted_def ensureEnvoyServiceDeleted_def currentContourService_def currentEnvoyService_def
  createService_def updateContourServiceIfNeeded_def updateEnvoyServiceIfNeeded_def
  client_Get_def client_Create_def client_Update_def client_Delete_def log_Info_def
  serviceKey_def svcName_def desired_def serviceChanged_def calls_of_def

lemma EnsureExists_get_failed:
  assumes "Get cl (world s) (serviceKey k contour) = (Inl e, w1)" "\<not> IsNotFound e"
  shows "fst (EnsureExists d cl k contour s) =
           Some (Errorf_service ''get'' (Name_ns (Namespace_spec (Spec contour))) (svcName k) e)"
    and "calls_of s (EnsureExists d cl k contour s) = [(GetCall (serviceKey k contour), Some e)]"
    and "world (snd (EnsureExists d cl k contour s)) = w1"
  using assms
  by (cases k; simp add: ensure_defs Let_def desired_meta)+


lemma EnsureExists_absent:
  assumes "Get cl (world s) (serviceKey k contour) = (Inl e, w1)" "IsNotFound e"
    "Create cl w1 (desired d k contour) = (r, w2)"
  shows "fst (EnsureExists d cl k contour s) =
           map_option (Errorf_service ''create'' (Name_ns (Namespace_spec (Spec contour))) (svcName k)) r"
    and "calls_of s (EnsureExists d cl k contour s) =
           [(GetCall (serviceKey k contour), Some e), (CreateCall (desired d k contour), r)]"
    and "world (snd (EnsureExists d cl k contour s)) = w2"
  using assms
  by (cases k; cases r; simp add: ensure_defs Let_def desired_meta)+

lemma EnsureExists_unowned:
  assumes "Get cl (world s) (serviceKey k contour) = (Inr cur, w1)" "\<not> ownerLabelsExist d cur contour"
  shows "fst (EnsureExists d cl k contour s) = None"
    and "calls_of s (EnsureExists d cl k contour s) = [(GetCall (serviceKey k contour), None)]"
    and "world (snd (EnsureExists d cl k contour s)) = w1"
  using assms
  by (cases k; simp add: ensure_defs Let_def)+

lemma EnsureExists_unchanged:
  assumes "Get cl (world s) (serviceKey k contour) = (Inr cur, w1)"
    "\<not> snd (serviceChanged d k cur (desired d k contour))"
  shows "fst (EnsureExists d cl k contour s) = None"
    and "calls_of s (EnsureExists d cl k contour s) = [(GetCall (serviceKey k contour), None)]"
    and "world (snd (EnsureExists d cl k contour s)) = w1"
  using assms
  by (cases k; simp add: ensure_defs Let_def split_beta)+

lemma EnsureExists_changed:
  assumes "Get cl (world s) (serviceKey k contour) = (Inr cur, w1)"
    "ownerLabelsExist d cur contour"
    "serviceChanged d k cur (desired d k contour) = (svc, True)"
    "Update cl w1 svc = (r, w2)"
  shows "fst (EnsureExists d cl k contour s) =
           map_option (\<lambda>e. Errorf_service ''update'' (Name_ns (Namespace_spec (Spec contour))) (svcName k)
              (Errorf_service ''update'' (Namespace (ObjectMeta svc)) (Name (ObjectMeta svc)) e)) r"
    and "calls_of s (EnsureExists d cl k contour s) =
           [(GetCall (serviceKey k contour), None), (UpdateCall svc, r)]"
    and "world (snd (EnsureExists d cl k contour s)) = w2"
  using assms
  by (cases k; cases r; simp add: ensure_defs Let_def desired_meta)+

lemma EnsureDeleted_get_failed:
  assumes "Get cl (world s) (serviceKey k contour) = (Inl e, w1)"
  shows "fst (EnsureDeleted d cl k contour s) = (if IsNotFound e then None else Some e)"
    and "calls_of s (EnsureDeleted d cl k contour s) = [(GetCall (serviceKey k contour), Some e)]"
    and "world (snd (EnsureDeleted d cl k contour s)) = w1"
  using assms
  by (cases k; simp add: ensure_defs)+

lemma EnsureDeleted_unowned:
  assumes "Get cl (world s) (serviceKey k contour) = (Inr svc, w1)" "\<not> ownerLabelsExist d svc contour"
  shows "fst (EnsureDeleted d cl k contour s) = None"
    and "calls_of s (EnsureDeleted d cl k contour s) = [(GetCall (serviceKey k contour), None)]"
    and "world (snd (EnsureDeleted d cl k contour s)) = w1"
  using assms
  by (cases k; simp add: ensure_defs)+

lemma EnsureDeleted_owned:
  assumes "Get cl (world s) (serviceKey k contour) = (Inr svc, w1)" "ownerLabelsExist d svc contour"
    "Delete cl w1 svc = (r, w2)"
  shows "fst (EnsureDeleted d cl k contour s) =
           (case r of None \<Rightarrow> None | Some e \<Rightarrow> if IsNotFound e then None else Some e)"
    and "calls_of s (EnsureDeleted d cl k contour s) =
           [(GetCall (serviceKey k contour), None), (DeleteCall svc, r)]"
    and "world (snd (EnsureDeleted d cl k contour s)) = w2"
  using assms
  by (cases k; cases r; simp add: ensure_defs)+

text \<open>The possible runs of EnsureExists, by what the store and the helpers answer.\<close>

lemma EnsureExists_cases:
  obtains
    (get_failed) e w1 where "Get cl (world s) (serviceKey k contour) = (Inl e, w1)" "\<not> IsNotFound e"
  | (absent) e w1 r w2 where "Get cl (world s) (serviceKey k contour) = (Inl e, w1)" "IsNotFound e"
      "Create cl w1 (desired d k contour) = (r, w2)"
  | (unowned) cur w1 where "Get cl (world s) (serviceKey k contour) = (Inr cur, w1)"
      "\<not> ownerLabelsExist d cur contour"
  | (unchanged) cur w1 where "Get cl (world s) (serviceKey k contour) = (Inr cur, w1)"
      "ownerLabelsExist d cur contour" "\<not> snd (serviceChanged d k cur (desired d k contour))"
  | (changed) cur w1 svc r w2 where "Get cl (world s) (serviceKey k contour) = (Inr cur, w1)"
      "ownerLabelsExist d cur contour" "serviceChanged d k cur (desired d k contour) = (svc, True)"
      "Update cl w1 svc = (r, w2)"
proof (cases "Get cl (world s) (serviceKey k contour)")
  case (Pair res w1)
  show ?thesis
  proof (cases res)
    case (Inl e)
    show ?thesis
    proof (cases "IsNotFound e")
      case True
      obtain r w2 where "Create cl w1 (desired d k contour) = (r, w2)"
        by (cases "Create cl w1 (desired d k contour)")
      with Pair Inl True show ?thesis by (intro absent) auto
    next
      case False
      with Pair Inl show ?thesis by (intro get_failed) auto
    qed
  next
    case (Inr cur)
    show ?thesis
    proof (cases "ownerLabelsExist d cur contour")
      case False
      with Pair Inr show ?thesis by (intro unowned) auto
    next
      case True
      obtain svc b where chg: "serviceChanged d k cur (desired d k contour) = (svc, b)"
        by (cases "serviceChanged d k cur (desired d k contour)")
      show ?thesis
      proof (cases b)
        case False
        with Pair Inr True chg show ?thesis by (intro unchanged) auto
      next
        case b: True
        obtain r w2 where "Update cl w1 svc = (r, w2)"
          by (cases "Update cl w1 svc")
        with Pair Inr True chg b show ?thesis by (intro changed) auto
      qed
    qed
  qed
qed

lemma EnsureDeleted_cases:
  obtains
    (get_failed) e w1 where "Get cl (world s) (serviceKey k contour) = (Inl e, w1)"
  | (unowned) svc w1 where "Get cl (world s) (serviceKey k contour) = (Inr svc, w1)"
      "\<not> ownerLabelsExist d svc contour"
  | (owned) svc w1 r w2 where "Get cl (world s) (serviceKey k contour) = (Inr svc, w1)"
      "ownerLabelsExist d svc contour" "Delete cl w1 svc = (r, w2)"
proof (cases "Get cl (world s) (serviceKey k contour)")
  case (Pair res w1)
  show ?thesis
  proof (cases res)
    case (Inl e)
    with Pair show ?thesis by (intro get_failed) auto
  next
    case (Inr svc)
    show ?thesis
    proof (cases "ownerLabelsExist d svc contour")
      case False
      with Pair Inr show ?thesis by (intro unowned) auto
    next
      case True
      obtain r w2 where "Delete cl w1 svc = (r, w2)"
        by (cases "Delete cl w1 svc")
      with Pair Inr True show ?thesis by (intro owned) auto
    qed
  qed
qed

section \<open>Two invocations in a row on the store without faults\<close>

lemma memory_Get:
  "Get memory_client w key = (case w key of None \<Rightarrow> (Inl (StatusError ''NotFound'' ''not found''), w) | Some svc \<Rightarrow> (Inr svc, w))"
  by (simp add: memory_client_def)

lemma memory_Create_absent:
  "w (key_of svc) = None \<Longrightarrow> Create memory_client w svc = (None, w(key_of svc \<mapsto> svc))"
  by (simp add: memory_client_def)

lemma memory_Update_present:
  "w (key_of svc) = Some old \<Longrightarrow> Update memory_client w svc = (None, w(key_of svc \<mapsto> svc))"
  by (simp add: memory_client_def)

lemma key_of_desired: "key_of (desired d k contour) = serviceKey k contour"
  by (cases k) (simp_all add: key_of_def desired_def serviceKey_def svcName_def desired_meta)

lemma EnsureExists_twice_memory:
  assumes keyed: "store_keyed (world s) (serviceKey k contour)"
    and settles: "detector_settles (serviceChanged d k) (desired d k contour)"
  shows "calls_of (snd (EnsureExists d memory_client k contour s))
           (EnsureExists d memory_client k contour (snd (EnsureExists d memory_client k contour s))) =
         [(GetCall (serviceKey k contour), None)]"
proof -
  let ?key = "serviceKey k contour"
  let ?des = "desired d k contour"
  let ?s1 = "snd (EnsureExists d memory_client k contour s)"
  show ?thesis
  proof (cases rule: EnsureExists_cases [where cl = memory_client and s = s and k = k and contour = contour and d = d])
    case (get_failed e w1)
    then show ?thesis by (auto simp: memory_Get split: option.splits)
  next
    case (absent e w1 r w2)
    from absent(1) have none: "world s ?key = None" and w1: "w1 = world s"
      by (auto simp: memory_Get split: option.splits)
    from absent(3) none w1 have w2: "w2 = (world s)(?key \<mapsto> ?des)"
      by (simp add: memory_Create_absent key_of_desired)
    have "world ?s1 = w2" by (rule EnsureExists_absent(3) [OF absent])
    with w2 have get2: "Get memory_client (world ?s1) ?key = (Inr ?des, world ?s1)"
      by (simp add: memory_Get)
    from settles have "\<not> snd (serviceChanged d k ?des ?des)"
      by (simp add: detector_settles_def)
    with get2 show ?thesis by (rule EnsureExists_unchanged(2))
  next
    case (unowned cur w1)
    from unowned(1) have w1: "w1 = world s"
      by (auto simp: memory_Get split: option.splits)
    have "world ?s1 = w1" by (rule EnsureExists_unowned(3) [OF unowned])
    with w1 unowned(1) have "Get memory_client (world ?s1) ?key = (Inr cur, w1)" by simp
    then show ?thesis using unowned(2) by (rule EnsureExists_unowned(2))
  next
    case (unchanged cur w1)
    from unchanged(1) have w1: "w1 = world s"
      by (auto simp: memory_Get split: option.splits)
    have "world ?s1 = w1" by (rule EnsureExists_unchanged(3) [OF unchanged(1,3)])
    with w1 unchanged(1) have "Get memory_client (world ?s1) ?key = (Inr cur, w1)" by simp
    then show ?thesis using unchanged(3) by (rule EnsureExists_unchanged(2))
  next
    case (changed cur w1 svc r w2)
    from changed(1) have cur: "world s ?key = Some cur" and w1: "w1 = world s"
      by (auto simp: memory_Get split: option.splits)
    from keyed cur have kc: "key_of cur = ?key" by (simp add: store_keyed_def)
    from settles have "snd (serviceChanged d k cur ?des) \<longrightarrow>
        key_of (fst (serviceChanged d k cur ?des)) = key_of cur \<and>
        \<not> snd (serviceChanged d k (fst (serviceChanged d k cur ?des)) ?des)"
      unfolding detector_settles_def by blast
    with changed(3) have ks: "key_of svc = key_of cur"
      and st: "\<not> snd (serviceChanged d k svc ?des)"
      by simp_all
    from changed(4) cur w1 kc ks have w2: "w2 = (world s)(?key \<mapsto> svc)"
      by (simp add: memory_Update_present)
    have "world ?s1 = w2" by (rule EnsureExists_changed(3) [OF changed])
    with w2 have "Get memory_client (world ?s1) ?key = (Inr svc, world ?s1)"
      by (simp add: memory_Get)
    then show ?thesis using st by (rule EnsureExists_unchanged(2))
  qed
qed

lemma sample_key: "serviceKey k sample_contour = (''projectcontour'', svcName k)"
  by (simp add: serviceKey_def sample_contour_def)

section \<open>The sample declarations and services\<close>

lemma spec_ClusterIP_settles: "detector_settles spec_ClusterIPServiceChanged des"
  by (simp add: detector_settles_def spec_ClusterIPServiceChanged_def spec_merge_meta_def key_of_def)

lemma spec_LoadBalancer_settles:
  "Annotations (ObjectMeta des) awsLbBackendProtoAnnotation \<noteq> None \<Longrightarrow>
   detector_settles spec_LoadBalancerServiceChanged des"
  by (auto simp: detector_settles_def spec_LoadBalancerServiceChanged_def spec_merge_meta_def key_of_def
      map_add_def split: option.splits)

lemma unlabeled_unowned: "\<not> ownerLabelsExist sample_decls (unlabeled_service k) sample_contour"
  by (simp add: sample_decls_def spec_ownerLabelsExist_def unlabeled_service_def)

lemma stale_owned: "ownerLabelsExist sample_decls (stale_service k) sample_contour"
  by (cases k) (simp_all add: sample_decls_def spec_ownerLabelsExist_def stale_service_def desired_def
      DesiredContourService_def DesiredEnvoyService_def sample_contour_def)

lemma key_of_stale: "key_of (stale_service k) = (''projectcontour'', svcName k)"
  by (cases k) (simp_all add: key_of_def stale_service_def desired_def svcName_def desired_meta sample_contour_def)

lemma unlabeled_changed:
  "snd (serviceChanged sample_decls Internal (unlabeled_service Internal) (desired sample_decls Internal sample_contour))"
  by (simp add: serviceChanged_def sample_decls_def spec_ClusterIPServiceChanged_def unlabeled_service_def
      desired_def DesiredContourService_def)

lemma other_parent_unowned:
  "\<not> ownerLabelsExist sample_decls (desired sample_decls k other_contour) sample_contour"
  by (cases k) (simp_all add: sample_decls_def spec_ownerLabelsExist_def desired_def
      DesiredContourService_def DesiredEnvoyService_def sample_contour_def other_contour_def)

lemma desired_unchanged_sample:
  "\<not> snd (serviceChanged sample_decls k (desired sample_decls k sample_contour) (desired sample_decls k sample_contour))"
  by (cases k) (simp_all add: serviceChanged_def sample_decls_def spec_ClusterIPServiceChanged_def
      spec_LoadBalancerServiceChanged_def)

lemma sample_settles:
  "detector_settles (serviceChanged sample_decls k) (desired sample_decls k sample_contour)"
proof (cases k)
  case Internal
  then show ?thesis by (simp add: serviceChanged_def sample_decls_def spec_ClusterIP_settles)
next
  case External
  have "Annotations (ObjectMeta (desired sample_decls External sample_contour)) awsLbBackendProtoAnnotation \<noteq> None"
    by (simp add: desired_def DesiredEnvoyService_def)
  then have "detector_settles spec_LoadBalancerServiceChanged (desired sample_decls External sample_contour)"
    by (rule spec_LoadBalancer_settles)
  with External show ?thesis by (simp add: serviceChanged_def sample_decls_def)
qed

lemma single_pass_one:
  "single_pass [(GetCall key, g)] res = (failed_call (GetCall key, g) \<longrightarrow> res \<noteq> None)"
  by (simp add: single_pass_def is_mutating_def)

lemma single_pass_two:
  "is_mutating (m, r) \<Longrightarrow> \<not> is_get (m, r) \<Longrightarrow>
   single_pass [(GetCall key, g), (m, r)] res =
     (\<not> failed_call (GetCall key, g) \<and> (failed_call (m, r) \<longrightarrow> res \<noteq> None))"
  by (auto simp: single_pass_def less_Suc_eq is_mutating_def)

lemma in_error_chain: "e \<in> set (error_chain e)"
  by (cases e) simp_all

lemma wraps_once: "wraps_store_error verb ns name e (Errorf_service verb ns name e)"
  by (simp add: wraps_store_error_def Errorf_service_def in_error_chain)

lemma wraps_twice:
  "wraps_store_error verb ns name e (Errorf_service verb ns name (Errorf_service verb' ns' name' e))"
  by (simp add: wraps_store_error_def Errorf_service_def in_error_chain)

lemma not_wraps_self: "\<not> wraps_store_error verb ns name (StatusError reason msg) (StatusError reason msg)"
  by (simp add: wraps_store_error_def)

lemma readonly_Get: "Get (readonly_client err) w key = Get memory_client w key"
  by (simp add: readonly_client_def)

lemma stale_changed:
  "serviceChanged sample_decls k (stale_service k) (desired sample_decls k sample_contour) =
     (fst (serviceChanged sample_decls k (stale_service k) (desired sample_decls k sample_contour)), True)"
  by (cases k) (simp_all add: prod_eq_iff serviceChanged_def sample_decls_def spec_ClusterIPServiceChanged_def
        spec_LoadBalancerServiceChanged_def stale_service_def desired_def DesiredContourService_def
        DesiredEnvoyService_def)

lemma desired_labels:
  "Labels (ObjectMeta (desired d k contour)) =
     [OwningContourNameLabel d \<mapsto> Name (ObjectMeta contour),
      OwningContourNsLabel d \<mapsto> Namespace (ObjectMeta contour)]"
  by (cases k) (simp_all add: desired_def DesiredContourService_def DesiredEnvoyService_def)

section \<open>Claims\<close>

text \<open>
  C2. For every parent and kind: when the store's get reports NotFound, EnsureExists
  makes exactly one create call, whose argument is the desired service of the parent
  and kind, makes no update call, and returns success when the create succeeds.
\<close>

theorem EnsureExists_creates_when_absent:
  assumes "Get cl (world s) (serviceKey k contour) = (Inl e, w1)"
    and "IsNotFound e"
    and "Create cl w1 (desired d k contour) = (r, w2)"
  shows "calls_of s (EnsureExists d cl k contour s) =
           [(GetCall (serviceKey k contour), Some e), (CreateCall (desired d k contour), r)] \<and>
         length (filter is_create (calls_of s (EnsureExists d cl k contour s))) = 1 \<and>
         filter is_update (calls_of s (EnsureExists d cl k contour s)) = [] \<and>
         (r = None \<longrightarrow> fst (EnsureExists d cl k contour s) = None)"
  using EnsureExists_absent [OF assms] by simp

theorem EnsureExists_creates_when_absent_witness:
  "Get memory_client (world (init_state Map.empty)) (serviceKey External sample_contour) =
     (Inl (StatusError ''NotFound'' ''not found''), Map.empty) \<and>
   IsNotFound (StatusError ''NotFound'' ''not found'') \<and>
   Create memory_client Map.empty (desired sample_decls External sample_contour) =
     (None, [(''projectcontour'', ''envoy'') \<mapsto> desired sample_decls External sample_contour]) \<and>
   calls_of (init_state Map.empty)
     (EnsureExists sample_decls memory_client External sample_contour (init_state Map.empty)) =
     [(GetCall (''projectcontour'', ''envoy''), Some (StatusError ''NotFound'' ''not found'')),
      (CreateCall (desired sample_decls External sample_contour), None)] \<and>
   fst (EnsureExists sample_decls memory_client External sample_contour (init_state Map.empty)) = None"
proof -
  have g: "Get memory_client (world (init_state Map.empty)) (serviceKey External sample_contour) =
     (Inl (StatusError ''NotFound'' ''not found''), Map.empty)"
    by (simp add: memory_Get init_state_def)
  have n: "IsNotFound (StatusError ''NotFound'' ''not found'')" by simp
  have c: "Create memory_client Map.empty (desired sample_decls External sample_contour) =
     (None, [(''projectcontour'', ''envoy'') \<mapsto> desired sample_decls External sample_contour])"
    by (simp add: memory_Create_absent key_of_desired sample_key svcName_def envoySvcName_def)
  show ?thesis
    using g n c EnsureExists_creates_when_absent [OF g n c]
    by (simp add: sample_key svcName_def envoySvcName_def)
qed

text \<open>
  C3. For every parent and kind: when the service that get returns does not pass the
  ownership-label check, EnsureExists makes no update call, whether or not the managed
  fields of that service differ from the desired ones, and returns success.
\<close>
theorem EnsureExists_skips_unowned:
  assumes "Get cl (world s) (serviceKey k contour) = (Inr cur, w1)"
    and "\<not> ownerLabelsExist d cur contour"
  shows "calls_of s (EnsureExists d cl k contour s) = [(GetCall (serviceKey k contour), None)] \<and>
         filter is_update (calls_of s (EnsureExists d cl k contour s)) = [] \<and>
         fst (EnsureExists d cl k contour s) = None"
  using EnsureExists_unowned [OF assms] by simp

theorem EnsureExists_skips_unowned_witness:
  "Get memory_client (world (init_state [(''projectcontour'', ''contour'') \<mapsto> unlabeled_service Internal]))
     (serviceKey Internal sample_contour) =
     (Inr (unlabeled_service Internal), [(''projectcontour'', ''contour'') \<mapsto> unlabeled_service Internal]) \<and>
   \<not> ownerLabelsExist sample_decls (unlabeled_service Internal) sample_contour \<and>
   snd (serviceChanged sample_decls Internal (unlabeled_service Internal)
         (desired sample_decls Internal sample_contour)) \<and>
   calls_of (init_state [(''projectcontour'', ''contour'') \<mapsto> unlabeled_service Internal])
     (EnsureExists sample_decls memory_client Internal sample_contour
        (init_state [(''projectcontour'', ''contour'') \<mapsto> unlabeled_service Internal])) =
     [(GetCall (''projectcontour'', ''contour''), None)] \<and>
   fst (EnsureExists sample_decls memory_client Internal sample_contour
        (init_state [(''projectcontour'', ''contour'') \<mapsto> unlabeled_service Internal])) = None"
proof -
  let ?w = "[(''projectcontour'', ''contour'') \<mapsto> unlabeled_service Internal]"
  have g: "Get memory_client (world (init_state ?w)) (serviceKey Internal sample_contour) =
     (Inr (unlabeled_service Internal), ?w)"
    by (simp add: memory_Get init_state_def sample_key svcName_def contourSvcName_def)
  have u: "\<not> ownerLabelsExist sample_decls (unlabeled_service Internal) sample_contour"
    by (rule unlabeled_unowned)
  show ?thesis
    using g u unlabeled_changed EnsureExists_skips_unowned [OF g u]
    by (simp add: sample_key svcName_def contourSvcName_def)
qed

text \<open>
  C4. For every parent and kind: when the service that get returns does not pass the
  ownership-label check, EnsureDeleted makes no delete call and returns success; and
  every delete call that EnsureDeleted makes is for the service that get returned, which
  passes the ownership-label check.
\<close>
theorem EnsureDeleted_deletes_only_owned:
  "(Get cl (world s) (serviceKey k contour) = (Inr svc, w1) \<and> \<not> ownerLabelsExist d svc contour \<longrightarrow>
      filter is_delete (calls_of s (EnsureDeleted d cl k contour s)) = [] \<and>
      calls_of s (EnsureDeleted d cl k contour s) = [(GetCall (serviceKey k contour), None)] \<and>
      fst (EnsureDeleted d cl k contour s) = None) \<and>
   (\<forall>obj r. (DeleteCall obj, r) \<in> set (calls_of s (EnsureDeleted d cl k contour s)) \<longrightarrow>
      fst (Get cl (world s) (serviceKey k contour)) = Inr obj \<and> ownerLabelsExist d obj contour)"
proof (intro conjI impI allI)
  assume a: "Get cl (world s) (serviceKey k contour) = (Inr svc, w1) \<and> \<not> ownerLabelsExist d svc contour"
  then have g: "Get cl (world s) (serviceKey k contour) = (Inr svc, w1)"
    and u: "\<not> ownerLabelsExist d svc contour" by simp_all
  from EnsureDeleted_unowned [OF g u]
  show "filter is_delete (calls_of s (EnsureDeleted d cl k contour s)) = []"
    and "calls_of s (EnsureDeleted d cl k contour s) = [(GetCall (serviceKey k contour), None)]"
    and "fst (EnsureDeleted d cl k contour s) = None"
    by simp_all
next
  fix obj r
  assume m: "(DeleteCall obj, r) \<in> set (calls_of s (EnsureDeleted d cl k contour s))"
  have "fst (Get cl (world s) (serviceKey k contour)) = Inr obj \<and> ownerLabelsExist d obj contour"
  proof (cases rule: EnsureDeleted_cases [where cl = cl and s = s and k = k and contour = contour and d = d])
    case (get_failed e w1)
    from m EnsureDeleted_get_failed(2) [OF get_failed, of d] show ?thesis by simp
  next
    case (unowned svc w1)
    from m EnsureDeleted_unowned(2) [OF unowned] show ?thesis by simp
  next
    case (owned svc w1 r' w2)
    from m EnsureDeleted_owned(2) [OF owned] have "obj = svc" by simp
    with owned show ?thesis by simp
  qed
  then show "fst (Get cl (world s) (serviceKey k contour)) = Inr obj"
    and "ownerLabelsExist d obj contour" by simp_all
qed

theorem EnsureDeleted_deletes_only_owned_witness:
  "Get memory_client (world (init_state [(''projectcontour'', ''envoy'') \<mapsto> desired sample_decls External other_contour]))
     (serviceKey External sample_contour) =
     (Inr (desired sample_decls External other_contour),
      [(''projectcontour'', ''envoy'') \<mapsto> desired sample_decls External other_contour]) \<and>
   \<not> ownerLabelsExist sample_decls (desired sample_decls External other_contour) sample_contour \<and>
   calls_of (init_state [(''projectcontour'', ''envoy'') \<mapsto> desired sample_decls External other_contour])
     (EnsureDeleted sample_decls memory_client External sample_contour
        (init_state [(''projectcontour'', ''envoy'') \<mapsto> desired sample_decls External other_contour])) =
     [(GetCall (''projectcontour'', ''envoy''), None)] \<and>
   fst (EnsureDeleted sample_decls memory_client External sample_contour
        (init_state [(''projectcontour'', ''envoy'') \<mapsto> desired sample_decls External other_contour])) = None \<and>
   (DeleteCall (stale_service External), None) \<in>
     set (calls_of (init_state [(''projectcontour'', ''envoy'') \<mapsto> stale_service External])
       (EnsureDeleted sample_decls memory_client External sample_contour
          (init_state [(''projectcontour'', ''envoy'') \<mapsto> stale_service External]))) \<and>
   ownerLabelsExist sample_decls (stale_service External) sample_contour"
proof -
  let ?o = "desired sample_decls External other_contour"
  let ?w = "[(''projectcontour'', ''envoy'') \<mapsto> ?o]"
  let ?v = "[(''projectcontour'', ''envoy'') \<mapsto> stale_service External]"
  have g: "Get memory_client (world (init_state ?w)) (serviceKey External sample_contour) = (Inr ?o, ?w)"
    by (simp add: memory_Get init_state_def sample_key svcName_def envoySvcName_def)
  have u: "\<not> ownerLabelsExist sample_decls ?o sample_contour"
    by (rule other_parent_unowned)
  have g2: "Get memory_client (world (init_state ?v)) (serviceKey External sample_contour) =
      (Inr (stale_service External), ?v)"
    by (simp add: memory_Get init_state_def sample_key svcName_def envoySvcName_def)
  have d2: "Delete memory_client ?v (stale_service External) = (None, ?v(key_of (stale_service External) := None))"
    by (simp add: memory_client_def key_of_stale svcName_def envoySvcName_def)
  have m: "(DeleteCall (stale_service External), None) \<in>
     set (calls_of (init_state ?v) (EnsureDeleted sample_decls memory_client External sample_contour (init_state ?v)))"
    by (simp add: EnsureDeleted_owned(2) [OF g2 stale_owned d2])
  from EnsureDeleted_deletes_only_owned [of memory_client "init_state ?w" External sample_contour ?o ?w sample_decls]
  have a: "calls_of (init_state ?w) (EnsureDeleted sample_decls memory_client External sample_contour (init_state ?w)) =
      [(GetCall (serviceKey External sample_contour), None)] \<and>
     fst (EnsureDeleted sample_decls memory_client External sample_contour (init_state ?w)) = None"
    using g u by simp
  from EnsureDeleted_deletes_only_owned [of memory_client "init_state ?v" External sample_contour _ _ sample_decls] m
  have b: "ownerLabelsExist sample_decls (stale_service External) sample_contour"
    by blast
  show ?thesis using g u a m b by (simp add: sample_key svcName_def envoySvcName_def)
qed

text \<open>
  C5. For every parent and kind: when get reports NotFound, EnsureDeleted returns
  success without a delete call; and when the delete call itself reports NotFound, the
  result is still success.
\<close>
theorem EnsureDeleted_absent_is_success:
  "(Get cl (world s) (serviceKey k contour) = (Inl e, w1) \<and> IsNotFound e \<longrightarrow>
      fst (EnsureDeleted d cl k contour s) = None \<and>
      calls_of s (EnsureDeleted d cl k contour s) = [(GetCall (serviceKey k contour), Some e)] \<and>
      filter is_delete (calls_of s (EnsureDeleted d cl k contour s)) = []) \<and>
   (Get cl (world s) (serviceKey k contour) = (Inr svc, w1) \<and> ownerLabelsExist d svc contour \<and>
    Delete cl w1 svc = (Some e', w2) \<and> IsNotFound e' \<longrightarrow>
      fst (EnsureDeleted d cl k contour s) = None \<and>
      calls_of s (EnsureDeleted d cl k contour s) =
        [(GetCall (serviceKey k contour), None), (DeleteCall svc, Some e')])"
proof (intro conjI impI)
  assume a: "Get cl (world s) (serviceKey k contour) = (Inl e, w1) \<and> IsNotFound e"
  then have g: "Get cl (world s) (serviceKey k contour) = (Inl e, w1)" and n: "IsNotFound e" by simp_all
  from EnsureDeleted_get_failed [OF g, of d] n
  show "fst (EnsureDeleted d cl k contour s) = None"
    and "calls_of s (EnsureDeleted d cl k contour s) = [(GetCall (serviceKey k contour), Some e)]"
    and "filter is_delete (calls_of s (EnsureDeleted d cl k contour s)) = []"
    by simp_all
next
  assume a: "Get cl (world s) (serviceKey k contour) = (Inr svc, w1) \<and> ownerLabelsExist d svc contour \<and>
    Delete cl w1 svc = (Some e', w2) \<and> IsNotFound e'"
  then have g: "Get cl (world s) (serviceKey k contour) = (Inr svc, w1)"
    and ow: "ownerLabelsExist d svc contour"
    and dl: "Delete cl w1 svc = (Some e', w2)" and n: "IsNotFound e'" by simp_all
  from EnsureDeleted_owned [OF g ow dl] n
  show "fst (EnsureDeleted d cl k contour s) = None"
    and "calls_of s (EnsureDeleted d cl k contour s) =
        [(GetCall (serviceKey k contour), None), (DeleteCall svc, Some e')]"
    by simp_all
qed

theorem EnsureDeleted_absent_is_success_witness:
  "Get memory_client (world (init_state Map.empty)) (serviceKey Internal sample_contour) =
     (Inl (StatusError ''NotFound'' ''not found''), Map.empty) \<and>
   IsNotFound (StatusError ''NotFound'' ''not found'') \<and>
   fst (EnsureDeleted sample_decls memory_client Internal sample_contour (init_state Map.empty)) = None \<and>
   calls_of (init_state Map.empty)
     (EnsureDeleted sample_decls memory_client Internal sample_contour (init_state Map.empty)) =
     [(GetCall (''projectcontour'', ''contour''), Some (StatusError ''NotFound'' ''not found''))] \<and>
   Get racing_client (world (init_state [(''projectcontour'', ''contour'') \<mapsto> stale_service Internal]))
     (serviceKey Internal sample_contour) =
     (Inr (stale_service Internal), [(''projectcontour'', ''contour'') \<mapsto> stale_service Internal]) \<and>
   ownerLabelsExist sample_decls (stale_service Internal) sample_contour \<and>
   Delete racing_client [(''projectcontour'', ''contour'') \<mapsto> stale_service Internal] (stale_service Internal) =
     (Some (StatusError ''NotFound'' ''not found''), Map.empty) \<and>
   fst (EnsureDeleted sample_decls racing_client Internal sample_contour
         (init_state [(''projectcontour'', ''contour'') \<mapsto> stale_service Internal])) = None \<and>
   calls_of (init_state [(''projectcontour'', ''contour'') \<mapsto> stale_service Internal])
     (EnsureDeleted sample_decls racing_client Internal sample_contour
         (init_state [(''projectcontour'', ''contour'') \<mapsto> stale_service Internal])) =
     [(GetCall (''projectcontour'', ''contour''), None),
      (DeleteCall (stale_service Internal), Some (StatusError ''NotFound'' ''not found''))]"
proof -
  let ?nf = "StatusError ''NotFound'' ''not found''"
  let ?v = "[(''projectcontour'', ''contour'') \<mapsto> stale_service Internal]"
  have g: "Get memory_client (world (init_state Map.empty)) (serviceKey Internal sample_contour) =
     (Inl ?nf, Map.empty)"
    by (simp add: memory_Get init_state_def)
  have n: "IsNotFound ?nf" by simp
  have g2: "Get racing_client (world (init_state ?v)) (serviceKey Internal sample_contour) =
      (Inr (stale_service Internal), ?v)"
    by (simp add: racing_client_def memory_Get init_state_def sample_key svcName_def contourSvcName_def)
  have d2: "Delete racing_client ?v (stale_service Internal) = (Some ?nf, Map.empty)"
    by (simp add: racing_client_def key_of_stale svcName_def contourSvcName_def)
  from EnsureDeleted_absent_is_success [where cl = memory_client and s = "init_state Map.empty"
      and k = Internal and contour = sample_contour and e = ?nf and ?w1.0 = Map.empty and d = sample_decls] g n
  have a: "fst (EnsureDeleted sample_decls memory_client Internal sample_contour (init_state Map.empty)) = None \<and>
     calls_of (init_state Map.empty)
       (EnsureDeleted sample_decls memory_client Internal sample_contour (init_state Map.empty)) =
     [(GetCall (serviceKey Internal sample_contour), Some ?nf)]"
    by simp
  from EnsureDeleted_absent_is_success [where cl = racing_client and s = "init_state ?v" and k = Internal
      and contour = sample_contour and svc = "stale_service Internal" and ?w1.0 = ?v and e' = ?nf
      and ?w2.0 = Map.empty and d = sample_decls] g2 stale_owned [of Internal] d2 n
  have b: "fst (EnsureDeleted sample_decls racing_client Internal sample_contour (init_state ?v)) = None \<and>
     calls_of (init_state ?v) (EnsureDeleted sample_decls racing_client Internal sample_contour (init_state ?v)) =
     [(GetCall (serviceKey Internal sample_contour), None), (DeleteCall (stale_service Internal), Some ?nf)]"
    by simp
  show ?thesis using g n a g2 stale_owned [of Internal] d2 b
    by (simp add: sample_key svcName_def contourSvcName_def)
qed

text \<open>
  C1. For every parent and kind: when the service that get returns already matches the
  desired service (the change detector of the kind reports changed = false), EnsureExists
  makes no update call; so a second invocation that observes the same service makes no
  create and no update call. On the store without faults and without another writer, for
  a change detector whose merged result it then finds unchanged, the second of two
  invocations in a row makes only the get call, whatever the store held before the first.
\<close>
theorem EnsureExists_unchanged_is_noop:
  "(Get cl (world s) (serviceKey k contour) = (Inr cur, w1) \<and>
    \<not> snd (serviceChanged d k cur (desired d k contour)) \<longrightarrow>
      calls_of s (EnsureExists d cl k contour s) = [(GetCall (serviceKey k contour), None)] \<and>
      filter is_update (calls_of s (EnsureExists d cl k contour s)) = [] \<and>
      fst (EnsureExists d cl k contour s) = None \<and>
      (Get cl w1 (serviceKey k contour) = (Inr cur, w2) \<longrightarrow>
         calls_of (snd (EnsureExists d cl k contour s))
           (EnsureExists d cl k contour (snd (EnsureExists d cl k contour s))) =
         [(GetCall (serviceKey k contour), None)])) \<and>
   (store_keyed (world t) (serviceKey k contour) \<and>
    detector_settles (serviceChanged d k) (desired d k contour) \<longrightarrow>
      calls_of (snd (EnsureExists d memory_client k contour t))
        (EnsureExists d memory_client k contour (snd (EnsureExists d memory_client k contour t))) =
      [(GetCall (serviceKey k contour), None)] \<and>
      filter is_create (calls_of (snd (EnsureExists d memory_client k contour t))
        (EnsureExists d memory_client k contour (snd (EnsureExists d memory_client k contour t)))) = [] \<and>
      filter is_update (calls_of (snd (EnsureExists d memory_client k contour t))
        (EnsureExists d memory_client k contour (snd (EnsureExists d memory_client k contour t)))) = [])"
proof (intro conjI impI)
  assume a: "Get cl (world s) (serviceKey k contour) = (Inr cur, w1) \<and>
    \<not> snd (serviceChanged d k cur (desired d k contour))"
  then have g: "Get cl (world s) (serviceKey k contour) = (Inr cur, w1)"
    and u: "\<not> snd (serviceChanged d k cur (desired d k contour))" by simp_all
  note first = EnsureExists_unchanged [OF g u]
  from first show "calls_of s (EnsureExists d cl k contour s) = [(GetCall (serviceKey k contour), None)]"
    and "filter is_update (calls_of s (EnsureExists d cl k contour s)) = []"
    and "fst (EnsureExists d cl k contour s) = None"
    by simp_all
  assume "Get cl w1 (serviceKey k contour) = (Inr cur, w2)"
  with first(3) have "Get cl (world (snd (EnsureExists d cl k contour s))) (serviceKey k contour) = (Inr cur, w2)"
    by simp
  then show "calls_of (snd (EnsureExists d cl k contour s))
           (EnsureExists d cl k contour (snd (EnsureExists d cl k contour s))) =
         [(GetCall (serviceKey k contour), None)]"
    using u by (rule EnsureExists_unchanged(2))
next
  assume b: "store_keyed (world t) (serviceKey k contour) \<and>
    detector_settles (serviceChanged d k) (desired d k contour)"
  then have twice: "calls_of (snd (EnsureExists d memory_client k contour t))
        (EnsureExists d memory_client k contour (snd (EnsureExists d memory_client k contour t))) =
      [(GetCall (serviceKey k contour), None)]"
    by (simp add: EnsureExists_twice_memory)
  then show "calls_of (snd (EnsureExists d memory_client k contour t))
        (EnsureExists d memory_client k contour (snd (EnsureExists d memory_client k contour t))) =
      [(GetCall (serviceKey k contour), None)]" .
  from twice show "filter is_create (calls_of (snd (EnsureExists d memory_client k contour t))
        (EnsureExists d memory_client k contour (snd (EnsureExists d memory_client k contour t)))) = []"
    by simp
  from twice show "filter is_update (calls_of (snd (EnsureExists d memory_client k contour t))
        (EnsureExists d memory_client k contour (snd (EnsureExists d memory_client k contour t)))) = []"
    by simp
qed

theorem EnsureExists_unchanged_is_noop_witness:
  "Get memory_client (world (init_state [(''projectcontour'', ''envoy'') \<mapsto> desired sample_decls External sample_contour]))
     (serviceKey External sample_contour) =
     (Inr (desired sample_decls External sample_contour),
      [(''projectcontour'', ''envoy'') \<mapsto> desired sample_decls External sample_contour]) \<and>
   \<not> snd (serviceChanged sample_decls External (desired sample_decls External sample_contour)
           (desired sample_decls External sample_contour)) \<and>
   calls_of (init_state [(''projectcontour'', ''envoy'') \<mapsto> desired sample_decls External sample_contour])
     (EnsureExists sample_decls memory_client External sample_contour
       (init_state [(''projectcontour'', ''envoy'') \<mapsto> desired sample_decls External sample_contour])) =
     [(GetCall (''projectcontour'', ''envoy''), None)] \<and>
   calls_of (snd (EnsureExists sample_decls memory_client External sample_contour
       (init_state [(''projectcontour'', ''envoy'') \<mapsto> desired sample_decls External sample_contour])))
     (EnsureExists sample_decls memory_client External sample_contour
       (snd (EnsureExists sample_decls memory_client External sample_contour
         (init_state [(''projectcontour'', ''envoy'') \<mapsto> desired sample_decls External sample_contour])))) =
     [(GetCall (''projectcontour'', ''envoy''), None)] \<and>
   store_keyed (world (init_state [(''projectcontour'', ''envoy'') \<mapsto> stale_service External]))
     (serviceKey External sample_contour) \<and>
   detector_settles (serviceChanged sample_decls External) (desired sample_decls External sample_contour) \<and>
   calls_of (init_state [(''projectcontour'', ''envoy'') \<mapsto> stale_service External])
     (EnsureExists sample_decls memory_client External sample_contour
       (init_state [(''projectcontour'', ''envoy'') \<mapsto> stale_service External])) =
     [(GetCall (''projectcontour'', ''envoy''), None),
      (UpdateCall (fst (serviceChanged sample_decls External (stale_service External)
          (desired sample_decls External sample_contour))), None)] \<and>
   calls_of (snd (EnsureExists sample_decls memory_client External sample_contour
       (init_state [(''projectcontour'', ''envoy'') \<mapsto> stale_service External])))
     (EnsureExists sample_decls memory_client External sample_contour
       (snd (EnsureExists sample_decls memory_client External sample_contour
         (init_state [(''projectcontour'', ''envoy'') \<mapsto> stale_service External])))) =
     [(GetCall (''projectcontour'', ''envoy''), None)]"
proof -
  let ?des = "desired sample_decls External sample_contour"
  let ?w = "[(''projectcontour'', ''envoy'') \<mapsto> ?des]"
  let ?v = "[(''projectcontour'', ''envoy'') \<mapsto> stale_service External]"
  let ?svc = "fst (serviceChanged sample_decls External (stale_service External) ?des)"
  have g: "Get memory_client (world (init_state ?w)) (serviceKey External sample_contour) = (Inr ?des, ?w)"
    by (simp add: memory_Get init_state_def sample_key svcName_def envoySvcName_def)
  have g': "Get memory_client ?w (serviceKey External sample_contour) = (Inr ?des, ?w)"
    by (simp add: memory_Get sample_key svcName_def envoySvcName_def)
  have u: "\<not> snd (serviceChanged sample_decls External ?des ?des)"
    by (rule desired_unchanged_sample)
  have keyed: "store_keyed (world (init_state ?v)) (serviceKey External sample_contour)"
    by (simp add: store_keyed_def init_state_def sample_key key_of_stale svcName_def envoySvcName_def)
  have settles: "detector_settles (serviceChanged sample_decls External) ?des"
    by (rule sample_settles)
  have g2: "Get memory_client (world (init_state ?v)) (serviceKey External sample_contour) =
      (Inr (stale_service External), ?v)"
    by (simp add: memory_Get init_state_def sample_key svcName_def envoySvcName_def)
  have chg: "snd (serviceChanged sample_decls External (stale_service External) ?des)"
    by (simp add: serviceChanged_def sample_decls_def spec_LoadBalancerServiceChanged_def stale_service_def
        desired_def DesiredEnvoyService_def)
  then have chg': "serviceChanged sample_decls External (stale_service External) ?des = (?svc, True)"
    by (simp add: prod_eq_iff)
  from settles chg have "key_of ?svc = key_of (stale_service External)"
    unfolding detector_settles_def by blast
  then have "Update memory_client ?v ?svc = (None, ?v(key_of ?svc \<mapsto> ?svc))"
    by (simp add: memory_client_def key_of_stale svcName_def envoySvcName_def)
  note run1 = EnsureExists_changed(2) [OF g2 stale_owned chg' this]
  from EnsureExists_unchanged_is_noop [where cl = memory_client and s = "init_state ?w" and k = External
      and contour = sample_contour and cur = ?des and ?w1.0 = ?w and ?w2.0 = ?w and d = sample_decls
      and t = "init_state ?v"]
    g g' u keyed settles
  have "calls_of (init_state ?w) (EnsureExists sample_decls memory_client External sample_contour (init_state ?w)) =
      [(GetCall (serviceKey External sample_contour), None)] \<and>
    calls_of (snd (EnsureExists sample_decls memory_client External sample_contour (init_state ?w)))
     (EnsureExists sample_decls memory_client External sample_contour
       (snd (EnsureExists sample_decls memory_client External sample_contour (init_state ?w)))) =
     [(GetCall (serviceKey External sample_contour), None)] \<and>
    calls_of (snd (EnsureExists sample_decls memory_client External sample_contour (init_state ?v)))
     (EnsureExists sample_decls memory_client External sample_contour
       (snd (EnsureExists sample_decls memory_client External sample_contour (init_state ?v)))) =
     [(GetCall (serviceKey External sample_contour), None)]"
    by simp
  with g u keyed settles run1 show ?thesis
    by (simp add: sample_key svcName_def envoySvcName_def)
qed

text \<open>
  C9. Every invocation of EnsureExists or EnsureDeleted makes exactly one get call and at
  most one mutating call (a create, an update or a delete), and a store call that fails
  with an error other than NotFound is the last call of the invocation, which then
  returns an error.
\<close>
theorem each_invocation_is_a_single_pass:
  "single_pass (calls_of s (EnsureExists d cl k contour s)) (fst (EnsureExists d cl k contour s)) \<and>
   single_pass (calls_of s (EnsureDeleted d cl k contour s)) (fst (EnsureDeleted d cl k contour s))"
proof
  show "single_pass (calls_of s (EnsureExists d cl k contour s)) (fst (EnsureExists d cl k contour s))"
  proof (cases rule: EnsureExists_cases [where cl = cl and s = s and k = k and contour = contour and d = d])
    case (get_failed e w1)
    from EnsureExists_get_failed(1,2) [OF get_failed, of d] show ?thesis
      by (simp add: single_pass_one)
  next
    case (absent e w1 r w2)
    from EnsureExists_absent(1,2) [OF absent] absent(2) show ?thesis
      by (cases r) (simp_all add: single_pass_two is_mutating_def)
  next
    case (unowned cur w1)
    from EnsureExists_unowned(1,2) [OF unowned] show ?thesis
      by (simp add: single_pass_one)
  next
    case (unchanged cur w1)
    from EnsureExists_unchanged(1,2) [OF unchanged(1,3)] show ?thesis
      by (simp add: single_pass_one)
  next
    case (changed cur w1 svc r w2)
    from EnsureExists_changed(1,2) [OF changed] show ?thesis
      by (cases r) (simp_all add: single_pass_two is_mutating_def)
  qed
  show "single_pass (calls_of s (EnsureDeleted d cl k contour s)) (fst (EnsureDeleted d cl k contour s))"
  proof (cases rule: EnsureDeleted_cases [where cl = cl and s = s and k = k and contour = contour and d = d])
    case (get_failed e w1)
    from EnsureDeleted_get_failed(1,2) [OF get_failed, of d] show ?thesis
      by (simp add: single_pass_one)
  next
    case (unowned svc w1)
    from EnsureDeleted_unowned(1,2) [OF unowned] show ?thesis
      by (simp add: single_pass_one)
  next
    case (owned svc w1 r w2)
    from EnsureDeleted_owned(1,2) [OF owned] show ?thesis
      by (cases r) (simp_all add: single_pass_two is_mutating_def)
  qed
qed


theorem each_invocation_is_a_single_pass_witness:
  "calls_of (init_state ())
     (EnsureExists sample_decls (failing_client (StatusError ''Timeout'' ''request timed out''))
        External sample_contour (init_state ())) =
     [(GetCall (''projectcontour'', ''envoy''), Some (StatusError ''Timeout'' ''request timed out''))] \<and>
   failed_call (GetCall (''projectcontour'', ''envoy''), Some (StatusError ''Timeout'' ''request timed out'')) \<and>
   single_pass
     (calls_of (init_state ())
       (EnsureExists sample_decls (failing_client (StatusError ''Timeout'' ''request timed out''))
          External sample_contour (init_state ())))
     (fst (EnsureExists sample_decls (failing_client (StatusError ''Timeout'' ''request timed out''))
          External sample_contour (init_state ()))) \<and>
   fst (EnsureExists sample_decls (failing_client (StatusError ''Timeout'' ''request timed out''))
          External sample_contour (init_state ())) \<noteq> None"
proof -
  let ?e = "StatusError ''Timeout'' ''request timed out''"
  let ?run = "EnsureExists sample_decls (failing_client ?e) External sample_contour (init_state ())"
  have g: "Get (failing_client ?e) (world (init_state ())) (serviceKey External sample_contour) = (Inl ?e, ())"
    by (simp add: failing_client_def)
  have n: "\<not> IsNotFound ?e" by simp
  have tr: "calls_of (init_state ()) ?run = [(GetCall (''projectcontour'', ''envoy''), Some ?e)]"
    using EnsureExists_get_failed(2) [OF g n, of sample_decls]
    by (simp add: sample_key svcName_def envoySvcName_def)
  have sp: "single_pass (calls_of (init_state ()) ?run) (fst ?run)"
    using each_invocation_is_a_single_pass [of "init_state ()" sample_decls "failing_client ?e" External sample_contour]
    by simp
  with tr have "fst ?run \<noteq> None"
    by (simp add: single_pass_def)
  with tr sp show ?thesis by simp
qed

text \<open>
  C6, as claimed: every non-NotFound error of a store operation during EnsureExists or
  EnsureDeleted reaches the caller wrapped with the namespace/name of the resource and
  the operation that failed. It fails for EnsureDeleted: a get that times out is returned
  to the caller as the store returned it.
\<close>
theorem EnsureDeleted_returns_store_error_bare:
  "Get (failing_client (StatusError ''Timeout'' ''request timed out'')) (world (init_state ()))
     (serviceKey Internal sample_contour) = (Inl (StatusError ''Timeout'' ''request timed out''), ()) \<and>
   \<not> IsNotFound (StatusError ''Timeout'' ''request timed out'') \<and>
   fst (EnsureDeleted sample_decls (failing_client (StatusError ''Timeout'' ''request timed out''))
         Internal sample_contour (init_state ())) = Some (StatusError ''Timeout'' ''request timed out'') \<and>
   \<not> wraps_store_error ''get'' ''projectcontour'' ''contour''
       (StatusError ''Timeout'' ''request timed out'') (StatusError ''Timeout'' ''request timed out'')"
proof -
  let ?e = "StatusError ''Timeout'' ''request timed out''"
  have g: "Get (failing_client ?e) (world (init_state ())) (serviceKey Internal sample_contour) = (Inl ?e, ())"
    by (simp add: failing_client_def)
  have n: "\<not> IsNotFound ?e" by simp
  from EnsureDeleted_get_failed(1) [OF g, of sample_decls] n
  have "fst (EnsureDeleted sample_decls (failing_client ?e) Internal sample_contour (init_state ())) = Some ?e"
    by simp
  with g n show ?thesis by (simp add: not_wraps_self)
qed

text \<open>
  C6, amended: during EnsureExists every non-NotFound error of get, create or update
  reaches the caller wrapped with the namespace/name of the resource and the operation
  that failed; during EnsureDeleted every non-NotFound error of get or delete reaches
  the caller as the store returned it, without wrapping.
\<close>
theorem store_errors_reach_the_caller:
  "(Get cl (world s) (serviceKey k contour) = (Inl e, w1) \<and> \<not> IsNotFound e \<longrightarrow>
      fst (EnsureExists d cl k contour s) =
        Some (Errorf_service ''get'' (Name_ns (Namespace_spec (Spec contour))) (svcName k) e) \<and>
      wraps_store_error ''get'' (Name_ns (Namespace_spec (Spec contour))) (svcName k) e
        (Errorf_service ''get'' (Name_ns (Namespace_spec (Spec contour))) (svcName k) e) \<and>
      fst (EnsureDeleted d cl k contour s) = Some e) \<and>
   (Get cl (world s) (serviceKey k contour) = (Inl e, w1) \<and> IsNotFound e \<and>
    Create cl w1 (desired d k contour) = (Some x, w2) \<and> \<not> IsNotFound x \<longrightarrow>
      fst (EnsureExists d cl k contour s) =
        Some (Errorf_service ''create'' (Name_ns (Namespace_spec (Spec contour))) (svcName k) x) \<and>
      wraps_store_error ''create'' (Name_ns (Namespace_spec (Spec contour))) (svcName k) x
        (Errorf_service ''create'' (Name_ns (Namespace_spec (Spec contour))) (svcName k) x)) \<and>
   (Get cl (world s) (serviceKey k contour) = (Inr cur, w1) \<and> ownerLabelsExist d cur contour \<and>
    serviceChanged d k cur (desired d k contour) = (svc, True) \<and>
    Update cl w1 svc = (Some x, w2) \<and> \<not> IsNotFound x \<longrightarrow>
      fst (EnsureExists d cl k contour s) =
        Some (Errorf_service ''update'' (Name_ns (Namespace_spec (Spec contour))) (svcName k)
               (Errorf_service ''update'' (Namespace (ObjectMeta svc)) (Name (ObjectMeta svc)) x)) \<and>
      wraps_store_error ''update'' (Name_ns (Namespace_spec (Spec contour))) (svcName k) x
        (Errorf_service ''update'' (Name_ns (Namespace_spec (Spec contour))) (svcName k)
               (Errorf_service ''update'' (Namespace (ObjectMeta svc)) (Name (ObjectMeta svc)) x))) \<and>
   (Get cl (world s) (serviceKey k contour) = (Inr cur, w1) \<and> ownerLabelsExist d cur contour \<and>
    Delete cl w1 cur = (Some x, w2) \<and> \<not> IsNotFound x \<longrightarrow>
      fst (EnsureDeleted d cl k contour s) = Some x)"
proof (intro conjI impI)
  assume "Get cl (world s) (serviceKey k contour) = (Inl e, w1) \<and> \<not> IsNotFound e"
  then have g: "Get cl (world s) (serviceKey k contour) = (Inl e, w1)" and n: "\<not> IsNotFound e"
    by simp_all
  show "fst (EnsureExists d cl k contour s) =
        Some (Errorf_service ''get'' (Name_ns (Namespace_spec (Spec contour))) (svcName k) e)"
    by (rule EnsureExists_get_failed(1) [OF g n])
  show "fst (EnsureDeleted d cl k contour s) = Some e"
    using EnsureDeleted_get_failed(1) [OF g, of d] n by simp
next
  assume "Get cl (world s) (serviceKey k contour) = (Inl e, w1) \<and> IsNotFound e \<and>
    Create cl w1 (desired d k contour) = (Some x, w2) \<and> \<not> IsNotFound x"
  then have g: "Get cl (world s) (serviceKey k contour) = (Inl e, w1)" and n: "IsNotFound e"
    and c: "Create cl w1 (desired d k contour) = (Some x, w2)" by simp_all
  show "fst (EnsureExists d cl k contour s) =
        Some (Errorf_service ''create'' (Name_ns (Namespace_spec (Spec contour))) (svcName k) x)"
    using EnsureExists_absent(1) [OF g n c] by simp
next
  assume "Get cl (world s) (serviceKey k contour) = (Inr cur, w1) \<and> ownerLabelsExist d cur contour \<and>
    serviceChanged d k cur (desired d k contour) = (svc, True) \<and>
    Update cl w1 svc = (Some x, w2) \<and> \<not> IsNotFound x"
  then have g: "Get cl (world s) (serviceKey k contour) = (Inr cur, w1)"
    and ow: "ownerLabelsExist d cur contour"
    and ch: "serviceChanged d k cur (desired d k contour) = (svc, True)"
    and u: "Update cl w1 svc = (Some x, w2)" by simp_all
  show "fst (EnsureExists d cl k contour s) =
        Some (Errorf_service ''update'' (Name_ns (Namespace_spec (Spec contour))) (svcName k)
               (Errorf_service ''update'' (Namespace (ObjectMeta svc)) (Name (ObjectMeta svc)) x))"
    using EnsureExists_changed(1) [OF g ow ch u] by simp
next
  assume "Get cl (world s) (serviceKey k contour) = (Inr cur, w1) \<and> ownerLabelsExist d cur contour \<and>
    Delete cl w1 cur = (Some x, w2) \<and> \<not> IsNotFound x"
  then have g: "Get cl (world s) (serviceKey k contour) = (Inr cur, w1)"
    and ow: "ownerLabelsExist d cur contour"
    and dl: "Delete cl w1 cur = (Some x, w2)" and n: "\<not> IsNotFound x" by simp_all
  show "fst (EnsureDeleted d cl k contour s) = Some x"
    using EnsureDeleted_owned(1) [OF g ow dl] n by simp
qed (rule wraps_once wraps_twice)+

theorem store_errors_reach_the_caller_witness:
  "\<not> IsNotFound (StatusError ''Timeout'' ''request timed out'') \<and>
   fst (EnsureExists sample_decls (failing_client (StatusError ''Timeout'' ''request timed out''))
         Internal sample_contour (init_state ())) =
     Some (WrapError ''failed to get service projectcontour/contour: request timed out''
            (StatusError ''Timeout'' ''request timed out'')) \<and>
   fst (EnsureDeleted sample_decls (failing_client (StatusError ''Timeout'' ''request timed out''))
         Internal sample_contour (init_state ())) = Some (StatusError ''Timeout'' ''request timed out'') \<and>
   fst (EnsureExists sample_decls (readonly_client (StatusError ''Forbidden'' ''denied''))
         Internal sample_contour (init_state Map.empty)) =
     Some (WrapError ''failed to create service projectcontour/contour: denied''
            (StatusError ''Forbidden'' ''denied'')) \<and>
   fst (EnsureExists sample_decls (readonly_client (StatusError ''Forbidden'' ''denied''))
         Internal sample_contour (init_state [(''projectcontour'', ''contour'') \<mapsto> stale_service Internal])) =
     Some (WrapError ''failed to update service projectcontour/contour: failed to update service projectcontour/contour: denied''
            (WrapError ''failed to update service projectcontour/contour: denied''
              (StatusError ''Forbidden'' ''denied''))) \<and>
   fst (EnsureDeleted sample_decls (readonly_client (StatusError ''Forbidden'' ''denied''))
         Internal sample_contour (init_state [(''projectcontour'', ''contour'') \<mapsto> stale_service Internal])) =
     Some (StatusError ''Forbidden'' ''denied'')"
proof -
  let ?t = "StatusError ''Timeout'' ''request timed out''"
  let ?f = "StatusError ''Forbidden'' ''denied''"
  let ?nf = "StatusError ''NotFound'' ''not found''"
  let ?v = "[(''projectcontour'', ''contour'') \<mapsto> stale_service Internal]"
  let ?des = "desired sample_decls Internal sample_contour"
  let ?svc = "fst (serviceChanged sample_decls Internal (stale_service Internal) ?des)"
  have names: "Name_ns (Namespace_spec (Spec sample_contour)) = ''projectcontour''"
    "svcName Internal = ''contour''"
    by (simp_all add: sample_contour_def svcName_def contourSvcName_def)
  have g1: "Get (failing_client ?t) (world (init_state ())) (serviceKey Internal sample_contour) = (Inl ?t, ())"
    by (simp add: failing_client_def)
  have n1: "\<not> IsNotFound ?t" by simp
  have g2: "Get (readonly_client ?f) (world (init_state Map.empty)) (serviceKey Internal sample_contour) =
      (Inl ?nf, Map.empty)"
    by (simp add: readonly_Get memory_Get init_state_def)
  have c2: "Create (readonly_client ?f) Map.empty ?des = (Some ?f, Map.empty)"
    by (simp add: readonly_client_def)
  have n2: "\<not> IsNotFound ?f" by simp
  have g3: "Get (readonly_client ?f) (world (init_state ?v)) (serviceKey Internal sample_contour) =
      (Inr (stale_service Internal), ?v)"
    by (simp add: readonly_Get memory_Get init_state_def sample_key names)
  have u3: "Update (readonly_client ?f) ?v ?svc = (Some ?f, ?v)"
    by (simp add: readonly_client_def)
  have d3: "Delete (readonly_client ?f) ?v (stale_service Internal) = (Some ?f, ?v)"
    by (simp add: readonly_client_def)
  have svc_meta: "Namespace (ObjectMeta ?svc) = ''projectcontour''" "Name (ObjectMeta ?svc) = ''contour''"
    by (simp_all add: serviceChanged_def sample_decls_def spec_ClusterIPServiceChanged_def
        spec_merge_meta_def stale_service_def desired_def DesiredContourService_def sample_contour_def
        contourSvcName_def)
  note thm1 = store_errors_reach_the_caller [where cl = "failing_client ?t" and s = "init_state ()"
      and k = Internal and contour = sample_contour and e = ?t and ?w1.0 = "()" and d = sample_decls]
  note thm2 = store_errors_reach_the_caller [where cl = "readonly_client ?f" and s = "init_state Map.empty"
      and k = Internal and contour = sample_contour and e = ?nf and ?w1.0 = Map.empty and x = ?f
      and ?w2.0 = Map.empty and d = sample_decls]
  note thm3 = store_errors_reach_the_caller [where cl = "readonly_client ?f" and s = "init_state ?v"
      and k = Internal and contour = sample_contour and cur = "stale_service Internal" and ?w1.0 = ?v
      and svc = ?svc and x = ?f and ?w2.0 = ?v and d = sample_decls]
  from thm1 g1 n1
  have a: "fst (EnsureExists sample_decls (failing_client ?t) Internal sample_contour (init_state ())) =
      Some (Errorf_service ''get'' ''projectcontour'' ''contour'' ?t) \<and>
    fst (EnsureDeleted sample_decls (failing_client ?t) Internal sample_contour (init_state ())) = Some ?t"
    by (simp add: names)
  from thm2 g2 c2 n2
  have b: "fst (EnsureExists sample_decls (readonly_client ?f) Internal sample_contour (init_state Map.empty)) =
      Some (Errorf_service ''create'' ''projectcontour'' ''contour'' ?f)"
    by (simp add: names)
  from thm3 g3 stale_owned [of Internal] stale_changed [of Internal] u3 d3 n2
  have c: "fst (EnsureExists sample_decls (readonly_client ?f) Internal sample_contour (init_state ?v)) =
      Some (Errorf_service ''update'' ''projectcontour'' ''contour''
             (Errorf_service ''update'' ''projectcontour'' ''contour'' ?f)) \<and>
    fst (EnsureDeleted sample_decls (readonly_client ?f) Internal sample_contour (init_state ?v)) = Some ?f"
    by (simp add: names svc_meta)
  from a b c show ?thesis
    by (simp add: Errorf_service_def)
qed

text \<open>
  C7. For every parent and kind the desired service is a function of the parent's name,
  its namespace and its namespace selection alone: two parents that agree on these three
  get equal desired services, whatever else they hold. The desired service carries both
  ownership labels, the one with the parent's name and the other with the parent's
  namespace (the two label keys are distinct constants).
\<close>
theorem desired_depends_on_identity_only:
  fixes c1 c2 contour :: "('n, 'c) Contour"
  shows
  "(Name (ObjectMeta c1) = Name (ObjectMeta c2) \<and>
    Namespace (ObjectMeta c1) = Namespace (ObjectMeta c2) \<and>
    Name_ns (Namespace_spec (Spec c1)) = Name_ns (Namespace_spec (Spec c2)) \<longrightarrow>
      desired d k c1 = desired d k c2) \<and>
   (OwningContourNameLabel d \<noteq> OwningContourNsLabel d \<longrightarrow>
      Labels (ObjectMeta (desired d k contour)) (OwningContourNameLabel d) = Some (Name (ObjectMeta contour)) \<and>
      Labels (ObjectMeta (desired d k contour)) (OwningContourNsLabel d) = Some (Namespace (ObjectMeta contour)))"
  by (cases k) (simp_all add: desired_def DesiredContourService_def DesiredEnvoyService_def)

theorem desired_depends_on_identity_only_witness:
  "Name (ObjectMeta sample_contour) =
     Name (ObjectMeta (sample_contour\<lparr>ObjectMeta := (ObjectMeta sample_contour)\<lparr>ResourceVersion := ''8''\<rparr>\<rparr>)) \<and>
   sample_contour \<noteq> sample_contour\<lparr>ObjectMeta := (ObjectMeta sample_contour)\<lparr>ResourceVersion := ''8''\<rparr>\<rparr> \<and>
   desired sample_decls External sample_contour =
     desired sample_decls External
       (sample_contour\<lparr>ObjectMeta := (ObjectMeta sample_contour)\<lparr>ResourceVersion := ''8''\<rparr>\<rparr>) \<and>
   OwningContourNameLabel sample_decls \<noteq> OwningContourNsLabel sample_decls \<and>
   Labels (ObjectMeta (desired sample_decls External sample_contour)) ''owning-contour-name'' = Some ''mesh'' \<and>
   Labels (ObjectMeta (desired sample_decls External sample_contour)) ''owning-contour-namespace'' = Some ''ops''"
proof -
  let ?c2 = "sample_contour\<lparr>ObjectMeta := (ObjectMeta sample_contour)\<lparr>ResourceVersion := ''8''\<rparr>\<rparr>"
  have same: "Name (ObjectMeta sample_contour) = Name (ObjectMeta ?c2)"
    "Namespace (ObjectMeta sample_contour) = Namespace (ObjectMeta ?c2)"
    "Name_ns (Namespace_spec (Spec sample_contour)) = Name_ns (Namespace_spec (Spec ?c2))"
    by simp_all
  have diff: "sample_contour \<noteq> ?c2"
  proof
    assume "sample_contour = ?c2"
    then have "ResourceVersion (ObjectMeta sample_contour) = ResourceVersion (ObjectMeta ?c2)" by simp
    then show False by (simp add: sample_contour_def)
  qed
  have keys: "OwningContourNameLabel sample_decls \<noteq> OwningContourNsLabel sample_decls"
    by (simp add: sample_decls_def)
  have vals: "OwningContourNameLabel sample_decls = ''owning-contour-name''"
    "OwningContourNsLabel sample_decls = ''owning-contour-namespace''"
    "Name (ObjectMeta sample_contour) = ''mesh''" "Namespace (ObjectMeta sample_contour) = ''ops''"
    by (simp_all add: sample_decls_def sample_contour_def)
  from desired_depends_on_identity_only [of sample_contour ?c2 sample_decls External sample_contour] same keys
  have r: "desired sample_decls External sample_contour = desired sample_decls External ?c2"
    and l1: "Labels (ObjectMeta (desired sample_decls External sample_contour)) (OwningContourNameLabel sample_decls) =
      Some (Name (ObjectMeta sample_contour))"
    and l2: "Labels (ObjectMeta (desired sample_decls External sample_contour)) (OwningContourNsLabel sample_decls) =
      Some (Namespace (ObjectMeta sample_contour))"
    by blast+
  from l1 have l1': "Labels (ObjectMeta (desired sample_decls External sample_contour)) ''owning-contour-name'' =
      Some ''mesh''"
    by (simp only: vals)
  from l2 have l2': "Labels (ObjectMeta (desired sample_decls External sample_contour)) ''owning-contour-namespace'' =
      Some ''ops''"
    by (simp only: vals)
  from same(1) diff r keys l1' l2' show ?thesis
    by (intro conjI)
qed

text \<open>
  C8. For every parent, the desired Contour (internal) service has type ClusterIP, exactly
  one port, the xDS port over TCP, the pod selector of the Contour deployment and no
  annotations; the desired Envoy (external) service has type LoadBalancer, exactly two
  ports, http and https, the pod selector of the Envoy daemon set, the AWS annotation
  that sets the load balancer's backend protocol to tcp, and external-traffic policy
  Local.
\<close>
theorem desired_services_shape:
  "Type (Spec (DesiredContourService d contour)) = ServiceTypeClusterIP \<and>
   length (Ports (Spec (DesiredContourService d contour))) = 1 \<and>
   map (\<lambda>p. (Name_port p, Protocol p, Port p, IntVal (TargetPort p))) (Ports (Spec (DesiredContourService d contour))) =
     [(''xds'', ProtocolTCP, int32 (xdsPort d), int32 (xdsPort d))] \<and>
   Selector (Spec (DesiredContourService d contour)) = MatchLabels (contourDeploymentPodSelector d) \<and>
   Annotations (ObjectMeta (DesiredContourService d contour)) = Map.empty \<and>
   Type (Spec (DesiredEnvoyService d contour)) = ServiceTypeLoadBalancer \<and>
   length (Ports (Spec (DesiredEnvoyService d contour))) = 2 \<and>
   map (\<lambda>p. (Name_port p, Protocol p, Port p, IntVal (TargetPort p))) (Ports (Spec (DesiredEnvoyService d contour))) =
     [(''http'', ProtocolTCP, int32 (httpPort d), int32 (httpPort d)),
      (''https'', ProtocolTCP, int32 (httpsPort d), int32 (httpsPort d))] \<and>
   Selector (Spec (DesiredEnvoyService d contour)) = MatchLabels (envoyDaemonSetPodSelector d) \<and>
   Annotations (ObjectMeta (DesiredEnvoyService d contour)) = [awsLbBackendProtoAnnotation \<mapsto> ''tcp''] \<and>
   Annotations (ObjectMeta (DesiredEnvoyService d contour))
     ''service.beta.kubernetes.io/aws-load-balancer-backend-protocol'' = Some ''tcp'' \<and>
   ExternalTrafficPolicy (Spec (DesiredEnvoyService d contour)) = ''Local''"
  by (simp add: DesiredContourService_def DesiredEnvoyService_def awsLbBackendProtoAnnotation_def
      ServiceExternalTrafficPolicyTypeLocal_def)

text \<open>
  C10. For every parent, EnsureExists and EnsureDeleted of both kinds address the service
  in the namespace that the parent selects (\<open>contour.Spec.Namespace.Name\<close>), not in the
  namespace of the parent object: every get is for the selected namespace and the name
  of the kind; every created service is the desired one, which is in the selected
  namespace and whose owning-namespace label holds the namespace of the parent object
  (\<open>contour.Namespace\<close>); every updated service is what the change detector made of the
  service that this get returned, and every deleted service is the service that this get
  returned, so both are in the selected namespace when the store returns a service
  under the key it was asked for and the detector keeps namespace and name. EnsureExists
  deletes nothing and EnsureDeleted creates and updates nothing.
\<close>
theorem services_live_in_selected_namespace:
  "take 1 (map fst (calls_of s (EnsureExists d cl k contour s))) =
     [GetCall (Name_ns (Namespace_spec (Spec contour)), svcName k)] \<and>
   take 1 (map fst (calls_of s (EnsureDeleted d cl k contour s))) =
     [GetCall (Name_ns (Namespace_spec (Spec contour)), svcName k)] \<and>
   Namespace (ObjectMeta (desired d k contour)) = Name_ns (Namespace_spec (Spec contour)) \<and>
   Labels (ObjectMeta (desired d k contour)) (OwningContourNsLabel d) = Some (Namespace (ObjectMeta contour)) \<and>
   (\<forall>svc r. (CreateCall svc, r) \<in> set (calls_of s (EnsureExists d cl k contour s)) \<longrightarrow>
      svc = desired d k contour \<and>
      Namespace (ObjectMeta svc) = Name_ns (Namespace_spec (Spec contour)) \<and>
      Labels (ObjectMeta svc) (OwningContourNsLabel d) = Some (Namespace (ObjectMeta contour))) \<and>
   (\<forall>key r. (GetCall key, r) \<in> set (calls_of s (EnsureExists d cl k contour s)) \<or>
             (GetCall key, r) \<in> set (calls_of s (EnsureDeleted d cl k contour s)) \<longrightarrow>
      key = (Name_ns (Namespace_spec (Spec contour)), svcName k)) \<and>
   (\<forall>svc r. (UpdateCall svc, r) \<in> set (calls_of s (EnsureExists d cl k contour s)) \<longrightarrow>
      (\<exists>cur. fst (Get cl (world s) (Name_ns (Namespace_spec (Spec contour)), svcName k)) = Inr cur \<and>
             svc = fst (serviceChanged d k cur (desired d k contour)) \<and>
             (key_of cur = (Name_ns (Namespace_spec (Spec contour)), svcName k) \<and> key_of svc = key_of cur \<longrightarrow>
                Namespace (ObjectMeta svc) = Name_ns (Namespace_spec (Spec contour)) \<and>
                Name (ObjectMeta svc) = svcName k))) \<and>
   (\<forall>svc r. (DeleteCall svc, r) \<in> set (calls_of s (EnsureDeleted d cl k contour s)) \<longrightarrow>
      fst (Get cl (world s) (Name_ns (Namespace_spec (Spec contour)), svcName k)) = Inr svc \<and>
      (key_of svc = (Name_ns (Namespace_spec (Spec contour)), svcName k) \<longrightarrow>
         Namespace (ObjectMeta svc) = Name_ns (Namespace_spec (Spec contour)) \<and>
         Name (ObjectMeta svc) = svcName k)) \<and>
   filter is_delete (calls_of s (EnsureExists d cl k contour s)) = [] \<and>
   filter is_create (calls_of s (EnsureDeleted d cl k contour s)) = [] \<and>
   filter is_update (calls_of s (EnsureDeleted d cl k contour s)) = []"
proof -
  let ?sel = "Name_ns (Namespace_spec (Spec contour))"
  let ?key = "(?sel, svcName k)"
  let ?ex = "calls_of s (EnsureExists d cl k contour s)"
  let ?del = "calls_of s (EnsureDeleted d cl k contour s)"
  have key: "serviceKey k contour = ?key" by (simp add: serviceKey_def)
  have ns: "Namespace (ObjectMeta (desired d k contour)) = ?sel"
    by (cases k) (simp_all add: desired_def desired_meta)
  have lb: "Labels (ObjectMeta (desired d k contour)) (OwningContourNsLabel d) = Some (Namespace (ObjectMeta contour))"
    by (simp add: desired_labels)
  have ex: "(\<exists>g. ?ex = [(GetCall ?key, g)]) \<or>
      (\<exists>g r. ?ex = [(GetCall ?key, g), (CreateCall (desired d k contour), r)]) \<or>
      (\<exists>cur r. fst (Get cl (world s) ?key) = Inr cur \<and>
         ?ex = [(GetCall ?key, None), (UpdateCall (fst (serviceChanged d k cur (desired d k contour))), r)])"
  proof (cases rule: EnsureExists_cases [where cl = cl and s = s and k = k and contour = contour and d = d])
    case (get_failed e w1)
    from EnsureExists_get_failed(2) [OF get_failed, of d] show ?thesis by (simp add: key)
  next
    case (absent e w1 r w2)
    from EnsureExists_absent(2) [OF absent] show ?thesis by (simp add: key)
  next
    case (unowned cur w1)
    from EnsureExists_unowned(2) [OF unowned] show ?thesis by (simp add: key)
  next
    case (unchanged cur w1)
    from EnsureExists_unchanged(2) [OF unchanged(1,3)] show ?thesis by (simp add: key)
  next
    case (changed cur w1 svc r w2)
    from changed(1) have "fst (Get cl (world s) ?key) = Inr cur" by (simp add: key)
    moreover from changed(3) have "svc = fst (serviceChanged d k cur (desired d k contour))" by simp
    moreover note EnsureExists_changed(2) [OF changed]
    ultimately show ?thesis by (simp add: key)
  qed
  have del: "(\<exists>g. ?del = [(GetCall ?key, g)]) \<or>
      (\<exists>svc r. fst (Get cl (world s) ?key) = Inr svc \<and> ?del = [(GetCall ?key, None), (DeleteCall svc, r)])"
  proof (cases rule: EnsureDeleted_cases [where cl = cl and s = s and k = k and contour = contour and d = d])
    case (get_failed e w1)
    from EnsureDeleted_get_failed(2) [OF get_failed, of d] show ?thesis by (simp add: key)
  next
    case (unowned svc w1)
    from EnsureDeleted_unowned(2) [OF unowned] show ?thesis by (simp add: key)
  next
    case (owned svc w1 r w2)
    from owned(1) have "fst (Get cl (world s) ?key) = Inr svc" by (simp add: key)
    with EnsureDeleted_owned(2) [OF owned] show ?thesis by (simp add: key)
  qed
  have c1: "take 1 (map fst ?ex) = [GetCall ?key]"
    using ex by auto
  have c2: "take 1 (map fst ?del) = [GetCall ?key]"
    using del by auto
  have c5: "\<forall>svc r. (CreateCall svc, r) \<in> set ?ex \<longrightarrow>
      svc = desired d k contour \<and> Namespace (ObjectMeta svc) = ?sel \<and>
      Labels (ObjectMeta svc) (OwningContourNsLabel d) = Some (Namespace (ObjectMeta contour))"
    using ex ns lb by auto
  have c6: "\<forall>key r. (GetCall key, r) \<in> set ?ex \<or> (GetCall key, r) \<in> set ?del \<longrightarrow> key = ?key"
    using ex del by auto
  have c7: "\<forall>svc r. (UpdateCall svc, r) \<in> set ?ex \<longrightarrow>
      (\<exists>cur. fst (Get cl (world s) ?key) = Inr cur \<and>
             svc = fst (serviceChanged d k cur (desired d k contour)) \<and>
             (key_of cur = ?key \<and> key_of svc = key_of cur \<longrightarrow>
                Namespace (ObjectMeta svc) = ?sel \<and> Name (ObjectMeta svc) = svcName k))"
    using ex by (auto simp: key_of_def)
  have c8: "\<forall>svc r. (DeleteCall svc, r) \<in> set ?del \<longrightarrow>
      fst (Get cl (world s) ?key) = Inr svc \<and>
      (key_of svc = ?key \<longrightarrow> Namespace (ObjectMeta svc) = ?sel \<and> Name (ObjectMeta svc) = svcName k)"
    using del by (auto simp: key_of_def)
  have c9: "filter is_delete ?ex = []"
    using ex by auto
  have c10: "filter is_create ?del = []" "filter is_update ?del = []"
    using del by auto
  from c1 c2 ns lb c5 c6 c7 c8 c9 c10 show ?thesis
    by (intro conjI)
qed

theorem services_live_in_selected_namespace_witness:
  "Namespace (ObjectMeta sample_contour) \<noteq> Name_ns (Namespace_spec (Spec sample_contour)) \<and>
   (GetCall (''projectcontour'', ''contour''), Some (StatusError ''NotFound'' ''not found'')) \<in>
     set (calls_of (init_state Map.empty)
       (EnsureExists sample_decls memory_client Internal sample_contour (init_state Map.empty))) \<and>
   (CreateCall (desired sample_decls Internal sample_contour), None) \<in>
     set (calls_of (init_state Map.empty)
       (EnsureExists sample_decls memory_client Internal sample_contour (init_state Map.empty))) \<and>
   Namespace (ObjectMeta (desired sample_decls Internal sample_contour)) = ''projectcontour'' \<and>
   Labels (ObjectMeta (desired sample_decls Internal sample_contour)) ''owning-contour-namespace'' = Some ''ops'' \<and>
   key_of (stale_service Internal) = (''projectcontour'', ''contour'') \<and>
   fst (Get memory_client (world (init_state [(''projectcontour'', ''contour'') \<mapsto> stale_service Internal]))
         (''projectcontour'', ''contour'')) = Inr (stale_service Internal) \<and>
   key_of (fst (serviceChanged sample_decls Internal (stale_service Internal)
                 (desired sample_decls Internal sample_contour))) = key_of (stale_service Internal) \<and>
   (UpdateCall (fst (serviceChanged sample_decls Internal (stale_service Internal)
                      (desired sample_decls Internal sample_contour))), None) \<in>
     set (calls_of (init_state [(''projectcontour'', ''contour'') \<mapsto> stale_service Internal])
       (EnsureExists sample_decls memory_client Internal sample_contour
         (init_state [(''projectcontour'', ''contour'') \<mapsto> stale_service Internal]))) \<and>
   Namespace (ObjectMeta (fst (serviceChanged sample_decls Internal (stale_service Internal)
                 (desired sample_decls Internal sample_contour)))) = ''projectcontour'' \<and>
   (DeleteCall (stale_service Internal), None) \<in>
     set (calls_of (init_state [(''projectcontour'', ''contour'') \<mapsto> stale_service Internal])
       (EnsureDeleted sample_decls memory_client Internal sample_contour
         (init_state [(''projectcontour'', ''contour'') \<mapsto> stale_service Internal]))) \<and>
   Namespace (ObjectMeta (stale_service Internal)) = ''projectcontour''"
proof -
  let ?des = "desired sample_decls Internal sample_contour"
  let ?nf = "StatusError ''NotFound'' ''not found''"
  let ?st = "stale_service Internal"
  let ?v = "[(''projectcontour'', ''contour'') \<mapsto> ?st]"
  let ?svc = "fst (serviceChanged sample_decls Internal ?st ?des)"
  let ?create = "EnsureExists sample_decls memory_client Internal sample_contour (init_state Map.empty)"
  let ?update = "EnsureExists sample_decls memory_client Internal sample_contour (init_state ?v)"
  let ?delete = "EnsureDeleted sample_decls memory_client Internal sample_contour (init_state ?v)"
  have vals: "OwningContourNsLabel sample_decls = ''owning-contour-namespace''"
    "Namespace (ObjectMeta sample_contour) = ''ops''"
    "Name_ns (Namespace_spec (Spec sample_contour)) = ''projectcontour''"
    "svcName Internal = ''contour''"
    by (simp_all add: sample_decls_def sample_contour_def svcName_def contourSvcName_def)
  have differ: "Namespace (ObjectMeta sample_contour) \<noteq> Name_ns (Namespace_spec (Spec sample_contour))"
    by (simp add: vals)
  have g: "Get memory_client (world (init_state Map.empty)) (serviceKey Internal sample_contour) =
     (Inl ?nf, Map.empty)"
    by (simp add: memory_Get init_state_def)
  have n: "IsNotFound ?nf" by simp
  have c: "Create memory_client Map.empty ?des = (None, [key_of ?des \<mapsto> ?des])"
    by (simp add: memory_Create_absent)
  have run_c: "calls_of (init_state Map.empty) ?create =
      [(GetCall (''projectcontour'', ''contour''), Some ?nf), (CreateCall ?des, None)]"
    using EnsureExists_absent(2) [OF g n c] by (simp add: sample_key vals)
  have kst: "key_of ?st = (''projectcontour'', ''contour'')"
    by (simp add: key_of_stale vals)
  have g2: "Get memory_client (world (init_state ?v)) (serviceKey Internal sample_contour) = (Inr ?st, ?v)"
    by (simp add: memory_Get init_state_def sample_key vals)
  then have g2': "fst (Get memory_client (world (init_state ?v)) (''projectcontour'', ''contour'')) = Inr ?st"
    by (simp add: sample_key vals)
  have ksvc: "key_of ?svc = key_of ?st"
    using sample_settles [of Internal] stale_changed [of Internal]
    unfolding detector_settles_def by (metis snd_conv)
  then have u: "Update memory_client ?v ?svc = (None, ?v(key_of ?svc \<mapsto> ?svc))"
    by (simp add: memory_client_def kst)
  have run_u: "calls_of (init_state ?v) ?update =
      [(GetCall (serviceKey Internal sample_contour), None), (UpdateCall ?svc, None)]"
    by (rule EnsureExists_changed(2) [OF g2 stale_owned stale_changed u])
  have d: "Delete memory_client ?v ?st = (None, ?v(key_of ?st := None))"
    by (simp add: memory_client_def kst)
  have run_d: "calls_of (init_state ?v) ?delete =
      [(GetCall (serviceKey Internal sample_contour), None), (DeleteCall ?st, None)]"
    by (rule EnsureDeleted_owned(2) [OF g2 stale_owned d])
  have m_g: "(GetCall (''projectcontour'', ''contour''), Some ?nf) \<in> set (calls_of (init_state Map.empty) ?create)"
    and m_c: "(CreateCall ?des, None) \<in> set (calls_of (init_state Map.empty) ?create)"
    by (simp_all add: run_c)
  have m_u: "(UpdateCall ?svc, None) \<in> set (calls_of (init_state ?v) ?update)"
    by (simp add: run_u)
  have m_d: "(DeleteCall ?st, None) \<in> set (calls_of (init_state ?v) ?delete)"
    by (simp add: run_d)
  note thm_c = services_live_in_selected_namespace [of "init_state Map.empty" sample_decls memory_client
      Internal sample_contour]
  note thm_v = services_live_in_selected_namespace [of "init_state ?v" sample_decls memory_client
      Internal sample_contour]
  from thm_c m_c
  have "Namespace (ObjectMeta ?des) = Name_ns (Namespace_spec (Spec sample_contour))"
    and "Labels (ObjectMeta ?des) (OwningContourNsLabel sample_decls) = Some (Namespace (ObjectMeta sample_contour))"
    by blast+
  then have des_ns: "Namespace (ObjectMeta ?des) = ''projectcontour''"
    and des_lb: "Labels (ObjectMeta ?des) ''owning-contour-namespace'' = Some ''ops''"
    by (simp_all only: vals)
  from thm_v m_u
  have "\<exists>cur. fst (Get memory_client (world (init_state ?v))
                  (Name_ns (Namespace_spec (Spec sample_contour)), svcName Internal)) = Inr cur \<and>
          ?svc = fst (serviceChanged sample_decls Internal cur ?des) \<and>
          (key_of cur = (Name_ns (Namespace_spec (Spec sample_contour)), svcName Internal) \<and>
           key_of ?svc = key_of cur \<longrightarrow>
             Namespace (ObjectMeta ?svc) = Name_ns (Namespace_spec (Spec sample_contour)) \<and>
             Name (ObjectMeta ?svc) = svcName Internal)"
    by blast
  with g2' kst ksvc have svc_ns: "Namespace (ObjectMeta ?svc) = ''projectcontour''"
    by (auto simp only: vals sum.inject)
  from thm_v m_d
  have "key_of ?st = (Name_ns (Namespace_spec (Spec sample_contour)), svcName Internal) \<longrightarrow>
      Namespace (ObjectMeta ?st) = Name_ns (Namespace_spec (Spec sample_contour))"
    by blast
  with kst have st_ns: "Namespace (ObjectMeta ?st) = ''projectcontour''"
    by (simp only: vals)
  from differ m_g m_c des_ns des_lb kst g2' ksvc m_u svc_ns m_d st_ns show ?thesis
    by (intro conjI)
qed

end
